theory Spec2Isabelle
  imports Main "HOL-Library.Char_ord" "HOL-Library.List_Lexorder" "HOL-Library.Option_ord"
begin

section \<open>The schema language of \<open>drizzle/models.ts\<close>\<close>

text \<open>
  \<open>models.ts\<close> declares the tables of the resource surveillance state database with the
  drizzle builders for SQLite.  A column is its property key, its SQL name, its declared
  type and the chain of modifiers applied to it (\<open>.primaryKey()\<close>, \<open>.notNull()\<close>,
  \<open>.default(...)\<close>, \<open>.references(() => t.c)\<close>); a table is its exported name, its SQL
  name, its columns and the constraint list returned by its third argument.  The names
  given to \<open>unique\<close>, \<open>index\<close> and \<open>foreignKey\<close> are labels only and are left out;
  \<open>.$type<string>()\<close> is a compile-time annotation and is left out too.
\<close>

datatype sqlval = Null | Text string | Integer int | Blob string

datatype coltype =
  TEXT | INTEGER | NUMERIC | REAL | BLOB | TIMESTAMPTZ | DATE | ULID | VARCHAR | TEXT_ARRAY

datatype dflt = CurrentTimestamp | DefaultText string | DefaultInt int

datatype modifier = PrimaryKey | NotNull | Default dflt | References string string

datatype column =
  Column (key: string) (colName: string) (ctype: coltype) (mods: "modifier list")

datatype constraint =
    Index "string list"
  | Unique "string list"
  | CheckJSON string
  | ForeignKey "string list" string "string list"

datatype table_def =
  Table (tsName: string) (tableName: string) (columns: "column list")
    (constraints: "constraint list")

text \<open>The object \<open>housekeeping\<close> that most tables spread into their column list.\<close>

definition housekeeping :: "column list" where
  "housekeeping =
     [Column ''createdAt'' ''created_at'' TIMESTAMPTZ [Default CurrentTimestamp],
      Column ''createdBy'' ''created_by'' TEXT [Default (DefaultText ''UNKNOWN'')],
      Column ''updatedAt'' ''updated_at'' TIMESTAMPTZ [],
      Column ''updatedBy'' ''updated_by'' TEXT [],
      Column ''deletedAt'' ''deleted_at'' TIMESTAMPTZ [],
      Column ''deletedBy'' ''deleted_by'' TEXT [],
      Column ''activityLog'' ''activity_log'' TEXT []]"

subsection \<open>The tables, in the order of the source file\<close>

definition sqleanDefine :: table_def where
  "sqleanDefine = Table ''sqleanDefine'' ''sqlean_define''
     ([Column ''name'' ''name'' TEXT [PrimaryKey],
      Column ''type'' ''type'' TEXT [],
      Column ''body'' ''body'' TEXT []])
     []"

definition assuranceSchema :: table_def where
  "assuranceSchema = Table ''assuranceSchema'' ''assurance_schema''
     ([Column ''assuranceSchemaId'' ''assurance_schema_id'' VARCHAR [PrimaryKey, NotNull],
      Column ''assuranceType'' ''assurance_type'' TEXT [NotNull],
      Column ''code'' ''code'' TEXT [NotNull],
      Column ''codeJson'' ''code_json'' TEXT [],
      Column ''governance'' ''governance'' TEXT []] @ housekeeping)
     [CheckJSON ''codeJson'',
      CheckJSON ''governance'']"

definition device :: table_def where
  "device = Table ''device'' ''device''
     ([Column ''deviceId'' ''device_id'' VARCHAR [PrimaryKey, NotNull],
      Column ''name'' ''name'' TEXT [NotNull],
      Column ''state'' ''state'' TEXT [NotNull],
      Column ''boundary'' ''boundary'' TEXT [NotNull],
      Column ''segmentation'' ''segmentation'' TEXT [],
      Column ''stateSysinfo'' ''state_sysinfo'' TEXT [],
      Column ''elaboration'' ''elaboration'' TEXT []] @ housekeeping)
     [Index [''name'', ''state''],
      Unique [''name'', ''state'', ''boundary''],
      CheckJSON ''state'',
      CheckJSON ''segmentation'',
      CheckJSON ''stateSysinfo'',
      CheckJSON ''elaboration'']"

definition codeNotebookKernel :: table_def where
  "codeNotebookKernel = Table ''codeNotebookKernel'' ''code_notebook_kernel''
     ([Column ''codeNotebookKernelId'' ''code_notebook_kernel_id'' VARCHAR [PrimaryKey, NotNull],
      Column ''kernelName'' ''kernel_name'' TEXT [NotNull],
      Column ''description'' ''description'' TEXT [],
      Column ''mimeType'' ''mime_type'' TEXT [],
      Column ''fileExtn'' ''file_extn'' TEXT [],
      Column ''elaboration'' ''elaboration'' TEXT [],
      Column ''governance'' ''governance'' TEXT []] @ housekeeping)
     [Unique [''kernelName''],
      CheckJSON ''elaboration'',
      CheckJSON ''governance'']"

definition codeNotebookCell :: table_def where
  "codeNotebookCell = Table ''codeNotebookCell'' ''code_notebook_cell''
     ([Column ''codeNotebookCellId'' ''code_notebook_cell_id'' VARCHAR [PrimaryKey, NotNull],
      Column ''notebookKernelId'' ''notebook_kernel_id'' VARCHAR
        [NotNull,
         References ''codeNotebookKernel'' ''codeNotebookKernelId''],
      Column ''notebookName'' ''notebook_name'' TEXT [NotNull],
      Column ''cellName'' ''cell_name'' TEXT [NotNull],
      Column ''cellGovernance'' ''cell_governance'' TEXT [],
      Column ''interpretableCode'' ''interpretable_code'' TEXT [NotNull],
      Column ''interpretableCodeHash'' ''interpretable_code_hash'' TEXT [NotNull],
      Column ''description'' ''description'' TEXT [],
      Column ''arguments'' ''arguments'' TEXT []] @ housekeeping)
     [Unique [''notebookName'', ''cellName'', ''interpretableCodeHash''],
      CheckJSON ''cellGovernance'',
      CheckJSON ''arguments'']"

definition codeNotebookState :: table_def where
  "codeNotebookState = Table ''codeNotebookState'' ''code_notebook_state''
     ([Column ''codeNotebookStateId'' ''code_notebook_state_id'' VARCHAR [PrimaryKey, NotNull],
      Column ''codeNotebookCellId'' ''code_notebook_cell_id'' VARCHAR
        [NotNull,
         References ''codeNotebookCell'' ''codeNotebookCellId''],
      Column ''fromState'' ''from_state'' TEXT [NotNull],
      Column ''toState'' ''to_state'' TEXT [NotNull],
      Column ''transitionResult'' ''transition_result'' TEXT [],
      Column ''transitionReason'' ''transition_reason'' TEXT [],
      Column ''transitionedAt'' ''transitioned_at'' TIMESTAMPTZ [],
      Column ''elaboration'' ''elaboration'' TEXT []] @ housekeeping)
     [Unique [''codeNotebookCellId'', ''fromState'', ''toState''],
      CheckJSON ''transitionResult'',
      CheckJSON ''elaboration'']"

definition sqlpageFiles :: table_def where
  "sqlpageFiles = Table ''sqlpageFiles'' ''sqlpage_files''
     ([Column ''path'' ''path'' TEXT [PrimaryKey, NotNull],
      Column ''contents'' ''contents'' TEXT [NotNull],
      Column ''lastModified'' ''last_modified'' NUMERIC [Default CurrentTimestamp]])
     []"

definition surveilrTableSize :: table_def where
  "surveilrTableSize = Table ''surveilrTableSize'' ''surveilr_table_size''
     ([Column ''tableName'' ''table_name'' TEXT [PrimaryKey],
      Column ''tableSizeMb'' ''table_size_mb'' REAL []])
     []"

definition sqlpageAideNavigation :: table_def where
  "sqlpageAideNavigation = Table ''sqlpageAideNavigation'' ''sqlpage_aide_navigation''
     ([Column ''path'' ''path'' TEXT [NotNull],
      Column ''caption'' ''caption'' TEXT [NotNull],
      Column ''namespace'' ''namespace'' TEXT [NotNull],
      Column ''parentPath'' ''parent_path'' TEXT [],
      Column ''siblingOrder'' ''sibling_order'' INTEGER [],
      Column ''url'' ''url'' TEXT [],
      Column ''title'' ''title'' TEXT [],
      Column ''abbreviatedCaption'' ''abbreviated_caption'' TEXT [],
      Column ''description'' ''description'' TEXT [],
      Column ''elaboration'' ''elaboration'' TEXT []])
     [Unique [''namespace'', ''parentPath'', ''path'']]"

definition partyType :: table_def where
  "partyType = Table ''partyType'' ''party_type''
     ([Column ''partyTypeId'' ''party_type_id'' ULID [PrimaryKey, NotNull],
      Column ''code'' ''code'' TEXT [NotNull],
      Column ''value'' ''value'' TEXT [NotNull]] @ housekeeping)
     [Unique [''code'']]"

definition party :: table_def where
  "party = Table ''party'' ''party''
     ([Column ''partyId'' ''party_id'' VARCHAR [PrimaryKey, NotNull],
      Column ''partyTypeId'' ''party_type_id'' ULID
        [NotNull,
         References ''partyType'' ''partyTypeId''],
      Column ''partyName'' ''party_name'' TEXT [NotNull],
      Column ''elaboration'' ''elaboration'' TEXT []] @ housekeeping)
     [Index [''partyTypeId'', ''partyName'']]"

definition partyRelationType :: table_def where
  "partyRelationType = Table ''partyRelationType'' ''party_relation_type''
     ([Column ''partyRelationTypeId'' ''party_relation_type_id'' TEXT [PrimaryKey, NotNull],
      Column ''code'' ''code'' TEXT [NotNull],
      Column ''value'' ''value'' TEXT [NotNull]] @ housekeeping)
     [Unique [''code'']]"

definition partyRelation :: table_def where
  "partyRelation = Table ''partyRelation'' ''party_relation''
     ([Column ''partyRelationId'' ''party_relation_id'' VARCHAR [PrimaryKey, NotNull],
      Column ''partyId'' ''party_id'' TEXT [NotNull, References ''party'' ''partyId''],
      Column ''relatedPartyId'' ''related_party_id'' TEXT
        [NotNull,
         References ''party'' ''partyId''],
      Column ''relationTypeId'' ''relation_type_id'' TEXT
        [NotNull,
         References ''partyRelationType'' ''partyRelationTypeId''],
      Column ''elaboration'' ''elaboration'' TEXT []] @ housekeeping)
     [Index [''partyId'', ''relatedPartyId'', ''relationTypeId''],
      Unique [''partyId'', ''relatedPartyId'', ''relationTypeId''],
      CheckJSON ''elaboration'']"

definition genderType :: table_def where
  "genderType = Table ''genderType'' ''gender_type''
     ([Column ''genderTypeId'' ''gender_type_id'' ULID [PrimaryKey, NotNull],
      Column ''code'' ''code'' TEXT [NotNull],
      Column ''value'' ''value'' TEXT [NotNull]] @ housekeeping)
     [Unique [''code'']]"

definition sexType :: table_def where
  "sexType = Table ''sexType'' ''sex_type''
     ([Column ''sexTypeId'' ''sex_type_id'' ULID [PrimaryKey, NotNull],
      Column ''code'' ''code'' TEXT [NotNull],
      Column ''value'' ''value'' TEXT [NotNull]] @ housekeeping)
     [Unique [''code'']]"

definition personType :: table_def where
  "personType = Table ''personType'' ''person_type''
     ([Column ''personTypeId'' ''person_type_id'' ULID [PrimaryKey, NotNull],
      Column ''code'' ''code'' TEXT [NotNull],
      Column ''value'' ''value'' TEXT [NotNull]] @ housekeeping)
     [Unique [''code'']]"

definition person :: table_def where
  "person = Table ''person'' ''person''
     ([Column ''personId'' ''person_id'' ULID [PrimaryKey, NotNull],
      Column ''partyId'' ''party_id'' TEXT [NotNull, References ''party'' ''partyId''],
      Column ''personTypeId'' ''person_type_id'' ULID
        [NotNull,
         References ''personType'' ''personTypeId''],
      Column ''personFirstName'' ''person_first_name'' TEXT [NotNull],
      Column ''personMiddleName'' ''person_middle_name'' TEXT [],
      Column ''personLastName'' ''person_last_name'' TEXT [NotNull],
      Column ''previousName'' ''previous_name'' TEXT [],
      Column ''honorificPrefix'' ''honorific_prefix'' TEXT [],
      Column ''honorificSuffix'' ''honorific_suffix'' TEXT [],
      Column ''genderId'' ''gender_id'' ULID
        [NotNull,
         References ''genderType'' ''genderTypeId''],
      Column ''sexId'' ''sex_id'' ULID [NotNull, References ''sexType'' ''sexTypeId''],
      Column ''elaboration'' ''elaboration'' TEXT []] @ housekeeping)
     [CheckJSON ''elaboration'']"

definition organization :: table_def where
  "organization = Table ''organization'' ''organization''
     ([Column ''organizationId'' ''organization_id'' ULID [PrimaryKey, NotNull],
      Column ''partyId'' ''party_id'' TEXT [NotNull, References ''party'' ''partyId''],
      Column ''name'' ''name'' TEXT [NotNull],
      Column ''alias'' ''alias'' TEXT [],
      Column ''description'' ''description'' TEXT [],
      Column ''license'' ''license'' TEXT [NotNull],
      Column ''federalTaxIdNum'' ''federal_tax_id_num'' TEXT [],
      Column ''registrationDate'' ''registration_date'' DATE [NotNull],
      Column ''elaboration'' ''elaboration'' TEXT []] @ housekeeping)
     [CheckJSON ''elaboration'']"

definition organizationRoleType :: table_def where
  "organizationRoleType = Table ''organizationRoleType'' ''organization_role_type''
     ([Column ''organizationRoleTypeId'' ''organization_role_type_id'' ULID [PrimaryKey, NotNull],
      Column ''code'' ''code'' TEXT [NotNull],
      Column ''value'' ''value'' TEXT [NotNull]] @ housekeeping)
     [Unique [''code'']]"

definition organizationRole :: table_def where
  "organizationRole = Table ''organizationRole'' ''organization_role''
     ([Column ''organizationRoleId'' ''organization_role_id'' TEXT [PrimaryKey, NotNull],
      Column ''personId'' ''person_id'' TEXT [NotNull, References ''party'' ''partyId''],
      Column ''organizationId'' ''organization_id'' TEXT
        [NotNull,
         References ''party'' ''partyId''],
      Column ''organizationRoleTypeId'' ''organization_role_type_id'' ULID
        [NotNull,
         References ''organizationRoleType'' ''organizationRoleTypeId''],
      Column ''elaboration'' ''elaboration'' TEXT []] @ housekeeping)
     [Index [''personId'', ''organizationId'', ''organizationRoleTypeId''],
      Unique [''personId'', ''organizationId'', ''organizationRoleTypeId''],
      CheckJSON ''elaboration'']"

definition devicePartyRelationship :: table_def where
  "devicePartyRelationship = Table ''devicePartyRelationship'' ''device_party_relationship''
     ([Column ''devicePartyRelationshipId'' ''device_party_relationship_id'' TEXT
        [PrimaryKey,
         NotNull],
      Column ''deviceId'' ''device_id'' TEXT [NotNull, References ''device'' ''deviceId''],
      Column ''partyId'' ''party_id'' TEXT [NotNull, References ''party'' ''partyId''],
      Column ''elaboration'' ''elaboration'' TEXT []] @ housekeeping)
     [Index [''deviceId'', ''partyId''],
      Unique [''deviceId'', ''partyId''],
      CheckJSON ''elaboration'']"

definition behavior :: table_def where
  "behavior = Table ''behavior'' ''behavior''
     ([Column ''behaviorId'' ''behavior_id'' VARCHAR [PrimaryKey, NotNull],
      Column ''deviceId'' ''device_id'' TEXT [NotNull],
      Column ''behaviorName'' ''behavior_name'' TEXT [NotNull],
      Column ''behaviorConfJson'' ''behavior_conf_json'' TEXT [NotNull],
      Column ''assuranceSchemaId'' ''assurance_schema_id'' TEXT [],
      Column ''governance'' ''governance'' TEXT []] @ housekeeping)
     [Unique [''deviceId'', ''behaviorName''],
      CheckJSON ''behaviorConfJson'',
      CheckJSON ''governance'']"

definition urIngestResourcePathMatchRule :: table_def where
  "urIngestResourcePathMatchRule =
     Table ''urIngestResourcePathMatchRule''
       ''ur_ingest_resource_path_match_rule''
     ([Column ''urIngestResourcePathMatchRuleId'' ''ur_ingest_resource_path_match_rule_id'' TEXT
        [PrimaryKey,
         NotNull],
      Column ''namespace'' ''namespace'' TEXT [NotNull],
      Column ''regex'' ''regex'' TEXT [NotNull],
      Column ''flags'' ''flags'' TEXT [NotNull],
      Column ''nature'' ''nature'' TEXT [],
      Column ''priority'' ''priority'' TEXT [],
      Column ''description'' ''description'' TEXT [],
      Column ''includeGlobPatterns'' ''include_glob_patterns'' TEXT_ARRAY [],
      Column ''excludeGlobPatterns'' ''exclude_glob_patterns'' TEXT_ARRAY [],
      Column ''elaboration'' ''elaboration'' TEXT []] @ housekeeping)
     [CheckJSON ''elaboration'',
      Unique [''namespace'', ''regex'']]"

definition urIngestResourcePathRewriteRule :: table_def where
  "urIngestResourcePathRewriteRule =
     Table ''urIngestResourcePathRewriteRule''
       ''ur_ingest_resource_path_rewrite_rule''
     ([Column ''urIngestResourcePathRewriteRuleId'' ''ur_ingest_resource_path_rewrite_rule_id'' TEXT
        [PrimaryKey,
         NotNull],
      Column ''namespace'' ''namespace'' TEXT [NotNull],
      Column ''regex'' ''regex'' TEXT [NotNull],
      Column ''replace'' ''replace'' TEXT [NotNull],
      Column ''priority'' ''priority'' TEXT [],
      Column ''description'' ''description'' TEXT [],
      Column ''elaboration'' ''elaboration'' TEXT []] @ housekeeping)
     [Unique [''namespace'', ''regex'', ''replace''],
      CheckJSON ''elaboration'']"

definition urIngestSession :: table_def where
  "urIngestSession = Table ''urIngestSession'' ''ur_ingest_session''
     ([Column ''urIngestSessionId'' ''ur_ingest_session_id'' TEXT [PrimaryKey, NotNull],
      Column ''deviceId'' ''device_id'' TEXT [NotNull, References ''device'' ''deviceId''],
      Column ''behaviorId'' ''behavior_id'' TEXT [References ''behavior'' ''behaviorId''],
      Column ''behaviorJson'' ''behavior_json'' TEXT [],
      Column ''ingestStartedAt'' ''ingest_started_at'' TIMESTAMPTZ [NotNull],
      Column ''ingestFinishedAt'' ''ingest_finished_at'' TIMESTAMPTZ [],
      Column ''sessionAgent'' ''session_agent'' TEXT [NotNull],
      Column ''elaboration'' ''elaboration'' TEXT []] @ housekeeping)
     [Unique [''deviceId'', ''createdAt''],
      CheckJSON ''behaviorJson'',
      CheckJSON ''sessionAgent'',
      CheckJSON ''elaboration'']"

definition urIngestSessionFsPath :: table_def where
  "urIngestSessionFsPath = Table ''urIngestSessionFsPath'' ''ur_ingest_session_fs_path''
     ([Column ''urIngestSessionFsPathId'' ''ur_ingest_session_fs_path_id'' TEXT
        [PrimaryKey,
         NotNull],
      Column ''ingestSessionId'' ''ingest_session_id'' TEXT
        [NotNull,
         References ''urIngestSession'' ''urIngestSessionId''],
      Column ''rootPath'' ''root_path'' TEXT [NotNull],
      Column ''includeGlobPatterns'' ''include_glob_patterns'' TEXT_ARRAY [],
      Column ''excludeGlobPatterns'' ''exclude_glob_patterns'' TEXT_ARRAY [],
      Column ''elaboration'' ''elaboration'' TEXT []] @ housekeeping)
     [Index [''ingestSessionId'', ''rootPath''],
      Unique [''ingestSessionId'', ''rootPath'', ''createdAt''],
      CheckJSON ''elaboration'']"

definition uniformResource :: table_def where
  "uniformResource = Table ''uniformResource'' ''uniform_resource''
     ([Column ''uniformResourceId'' ''uniform_resource_id'' TEXT [PrimaryKey, NotNull],
      Column ''deviceId'' ''device_id'' TEXT [NotNull, References ''device'' ''deviceId''],
      Column ''ingestSessionId'' ''ingest_session_id'' TEXT
        [NotNull,
         References ''urIngestSession'' ''urIngestSessionId''],
      Column ''ingestFsPathId'' ''ingest_fs_path_id'' TEXT
        [References ''urIngestSessionFsPath'' ''urIngestSessionFsPathId''],
      Column ''ingestSessionImapAcctFolderMessage'' ''ingest_session_imap_acct_folder_message'' TEXT
        [References ''urIngestSessionImapAcctFolderMessage'' ''urIngestSessionImapAcctFolderMessageId''],
      Column ''ingestIssueAcctProjectId'' ''ingest_issue_acct_project_id'' TEXT
        [References ''urIngestSessionPlmAcctProject'' ''urIngestSessionPlmAcctProjectId''],
      Column ''uri'' ''uri'' TEXT [NotNull],
      Column ''contentDigest'' ''content_digest'' TEXT [NotNull],
      Column ''content'' ''content'' BLOB [],
      Column ''nature'' ''nature'' TEXT [],
      Column ''sizeBytes'' ''size_bytes'' INTEGER [],
      Column ''lastModifiedAt'' ''last_modified_at'' TIMESTAMPTZ [],
      Column ''contentFmBodyAttrs'' ''content_fm_body_attrs'' TEXT [],
      Column ''frontmatter'' ''frontmatter'' TEXT [],
      Column ''elaboration'' ''elaboration'' TEXT []] @ housekeeping)
     [Index [''deviceId'', ''uri''],
      Unique [''deviceId'', ''contentDigest'', ''uri'', ''sizeBytes''],
      CheckJSON ''contentFmBodyAttrs'',
      CheckJSON ''frontmatter'',
      CheckJSON ''elaboration'']"

definition uniformResourceTransform :: table_def where
  "uniformResourceTransform = Table ''uniformResourceTransform'' ''uniform_resource_transform''
     ([Column ''uniformResourceTransformId'' ''uniform_resource_transform_id'' TEXT
        [PrimaryKey,
         NotNull],
      Column ''uniformResourceId'' ''uniform_resource_id'' TEXT
        [NotNull,
         References ''uniformResource'' ''uniformResourceId''],
      Column ''uri'' ''uri'' TEXT [NotNull],
      Column ''contentDigest'' ''content_digest'' TEXT [NotNull],
      Column ''content'' ''content'' TEXT [],
      Column ''nature'' ''nature'' TEXT [],
      Column ''sizeBytes'' ''size_bytes'' INTEGER [],
      Column ''elaboration'' ''elaboration'' TEXT []] @ housekeeping)
     [Index [''uniformResourceId'', ''contentDigest''],
      Unique [''uniformResourceId'', ''contentDigest'', ''nature'', ''sizeBytes''],
      CheckJSON ''elaboration'']"

definition urIngestSessionFsPathEntry :: table_def where
  "urIngestSessionFsPathEntry =
     Table ''urIngestSessionFsPathEntry''
       ''ur_ingest_session_fs_path_entry''
     ([Column ''urIngestSessionFsPathEntryId'' ''ur_ingest_session_fs_path_entry_id'' TEXT
        [PrimaryKey,
         NotNull],
      Column ''ingestSessionId'' ''ingest_session_id'' TEXT
        [NotNull,
         References ''urIngestSession'' ''urIngestSessionId''],
      Column ''ingestFsPathId'' ''ingest_fs_path_id'' TEXT
        [NotNull,
         References ''urIngestSessionFsPath'' ''urIngestSessionFsPathId''],
      Column ''uniformResourceId'' ''uniform_resource_id'' TEXT
        [References ''uniformResource'' ''uniformResourceId''],
      Column ''filePathAbs'' ''file_path_abs'' TEXT [NotNull],
      Column ''filePathRelParent'' ''file_path_rel_parent'' TEXT [NotNull],
      Column ''filePathRel'' ''file_path_rel'' TEXT [NotNull],
      Column ''fileBasename'' ''file_basename'' TEXT [NotNull],
      Column ''fileExtn'' ''file_extn'' TEXT [],
      Column ''capturedExecutable'' ''captured_executable'' TEXT [],
      Column ''urStatus'' ''ur_status'' TEXT [],
      Column ''urDiagnostics'' ''ur_diagnostics'' TEXT [],
      Column ''urTransformations'' ''ur_transformations'' TEXT [],
      Column ''elaboration'' ''elaboration'' TEXT []] @ housekeeping)
     [Index [''ingestSessionId'', ''filePathAbs''],
      Unique [''ingestSessionId'', ''ingestFsPathId'', ''filePathAbs''],
      CheckJSON ''capturedExecutable'',
      CheckJSON ''urDiagnostics'',
      CheckJSON ''urTransformations'',
      CheckJSON ''elaboration'']"

definition urIngestSessionTask :: table_def where
  "urIngestSessionTask = Table ''urIngestSessionTask'' ''ur_ingest_session_task''
     ([Column ''urIngestSessionTaskId'' ''ur_ingest_session_task_id'' TEXT [PrimaryKey, NotNull],
      Column ''ingestSessionId'' ''ingest_session_id'' TEXT
        [NotNull,
         References ''urIngestSession'' ''urIngestSessionId''],
      Column ''uniformResourceId'' ''uniform_resource_id'' TEXT
        [References ''uniformResource'' ''uniformResourceId''],
      Column ''capturedExecutable'' ''captured_executable'' TEXT [NotNull],
      Column ''urStatus'' ''ur_status'' TEXT [],
      Column ''urDiagnostics'' ''ur_diagnostics'' TEXT [],
      Column ''urTransformations'' ''ur_transformations'' TEXT [],
      Column ''elaboration'' ''elaboration'' TEXT []] @ housekeeping)
     [Index [''ingestSessionId''],
      CheckJSON ''capturedExecutable'',
      CheckJSON ''urDiagnostics'',
      CheckJSON ''urTransformations'',
      CheckJSON ''elaboration'']"

definition urIngestSessionImapAccount :: table_def where
  "urIngestSessionImapAccount =
     Table ''urIngestSessionImapAccount''
       ''ur_ingest_session_imap_account''
     ([Column ''urIngestSessionImapAccountId'' ''ur_ingest_session_imap_account_id'' TEXT
        [PrimaryKey,
         NotNull],
      Column ''ingestSessionId'' ''ingest_session_id'' TEXT
        [NotNull,
         References ''urIngestSession'' ''urIngestSessionId''],
      Column ''email'' ''email'' TEXT [],
      Column ''password'' ''password'' TEXT [],
      Column ''host'' ''host'' TEXT [],
      Column ''elaboration'' ''elaboration'' TEXT []] @ housekeeping)
     [Index [''ingestSessionId'', ''email''],
      Unique [''ingestSessionId'', ''email'']]"

definition urIngestSessionImapAcctFolder :: table_def where
  "urIngestSessionImapAcctFolder =
     Table ''urIngestSessionImapAcctFolder''
       ''ur_ingest_session_imap_acct_folder''
     ([Column ''urIngestSessionImapAcctFolderId'' ''ur_ingest_session_imap_acct_folder_id'' TEXT
        [PrimaryKey,
         NotNull],
      Column ''ingestSessionId'' ''ingest_session_id'' TEXT
        [NotNull,
         References ''urIngestSession'' ''urIngestSessionId''],
      Column ''ingestAccountId'' ''ingest_account_id'' TEXT
        [NotNull,
         References ''urIngestSessionImapAccount'' ''urIngestSessionImapAccountId''],
      Column ''folderName'' ''folder_name'' TEXT [NotNull],
      Column ''includeSenders'' ''include_senders'' TEXT_ARRAY [],
      Column ''excludeSenders'' ''exclude_senders'' TEXT_ARRAY [],
      Column ''elaboration'' ''elaboration'' TEXT []] @ housekeeping)
     [Index [''ingestSessionId'', ''folderName''],
      Unique [''ingestAccountId'', ''folderName'']]"

definition urIngestSessionImapAcctFolderMessage :: table_def where
  "urIngestSessionImapAcctFolderMessage =
     Table ''urIngestSessionImapAcctFolderMessage''
       ''ur_ingest_session_imap_acct_folder_message''
     ([Column ''urIngestSessionImapAcctFolderMessageId'' ''ur_ingest_session_imap_acct_folder_message_id'' TEXT
        [PrimaryKey,
         NotNull],
      Column ''ingestSessionId'' ''ingest_session_id'' TEXT
        [NotNull,
         References ''urIngestSession'' ''urIngestSessionId''],
      Column ''ingestImapAcctFolderId'' ''ingest_imap_acct_folder_id'' TEXT
        [NotNull,
         References ''urIngestSessionImapAcctFolder'' ''urIngestSessionImapAcctFolderId''],
      Column ''message'' ''message'' TEXT [NotNull],
      Column ''messageId'' ''message_id'' TEXT [NotNull],
      Column ''subject'' ''subject'' TEXT [NotNull],
      Column ''from'' ''from'' TEXT [NotNull],
      Column ''cc'' ''cc'' TEXT [NotNull],
      Column ''bcc'' ''bcc'' TEXT [NotNull],
      Column ''status'' ''status'' TEXT_ARRAY [NotNull],
      Column ''date'' ''date'' DATE [],
      Column ''emailReferences'' ''email_references'' TEXT [NotNull]] @ housekeeping)
     [Index [''ingestSessionId''],
      Unique [''message'', ''messageId''],
      CheckJSON ''cc'',
      CheckJSON ''bcc'',
      CheckJSON ''emailReferences'']"

definition urIngestSessionPlmAccount :: table_def where
  "urIngestSessionPlmAccount =
     Table ''urIngestSessionPlmAccount''
       ''ur_ingest_session_plm_account''
     ([Column ''urIngestSessionPlmAccountId'' ''ur_ingest_session_plm_account_id'' VARCHAR
        [PrimaryKey,
         NotNull],
      Column ''ingestSessionId'' ''ingest_session_id'' TEXT
        [NotNull,
         References ''urIngestSession'' ''urIngestSessionId''],
      Column ''provider'' ''provider'' TEXT [NotNull],
      Column ''orgName'' ''org_name'' TEXT [NotNull],
      Column ''elaboration'' ''elaboration'' TEXT []] @ housekeeping)
     [Unique [''provider'', ''orgName''],
      CheckJSON ''elaboration'']"

definition urIngestSessionPlmAcctProject :: table_def where
  "urIngestSessionPlmAcctProject =
     Table ''urIngestSessionPlmAcctProject''
       ''ur_ingest_session_plm_acct_project''
     ([Column ''urIngestSessionPlmAcctProjectId'' ''ur_ingest_session_plm_acct_project_id'' VARCHAR
        [PrimaryKey,
         NotNull],
      Column ''ingestSessionId'' ''ingest_session_id'' TEXT
        [NotNull,
         References ''urIngestSession'' ''urIngestSessionId''],
      Column ''ingestAccountId'' ''ingest_account_id'' TEXT
        [NotNull,
         References ''urIngestSessionPlmAccount'' ''urIngestSessionPlmAccountId''],
      Column ''parentProjectId'' ''parent_project_id'' TEXT [],
      Column ''name'' ''name'' TEXT [NotNull],
      Column ''description'' ''description'' TEXT [],
      Column ''id'' ''id'' TEXT [],
      Column ''key'' ''key'' TEXT [],
      Column ''elaboration'' ''elaboration'' TEXT []] @ housekeeping)
     [Unique [''name'', ''description''],
      CheckJSON ''elaboration'']"

definition urIngestSessionPlmUser :: table_def where
  "urIngestSessionPlmUser = Table ''urIngestSessionPlmUser'' ''ur_ingest_session_plm_user''
     ([Column ''urIngestSessionPlmUserId'' ''ur_ingest_session_plm_user_id'' VARCHAR
        [PrimaryKey,
         NotNull],
      Column ''userId'' ''user_id'' TEXT [NotNull],
      Column ''login'' ''login'' TEXT [NotNull],
      Column ''email'' ''email'' TEXT [],
      Column ''name'' ''name'' TEXT [],
      Column ''url'' ''url'' TEXT [NotNull],
      Column ''elaboration'' ''elaboration'' TEXT []] @ housekeeping)
     [Unique [''userId'', ''login''],
      CheckJSON ''elaboration'']"

definition urIngestSessionPlmIssueType :: table_def where
  "urIngestSessionPlmIssueType =
     Table ''urIngestSessionPlmIssueType''
       ''ur_ingest_session_plm_issue_type''
     ([Column ''urIngestSessionPlmIssueTypeId'' ''ur_ingest_session_plm_issue_type_id'' VARCHAR
        [PrimaryKey,
         NotNull],
      Column ''avatarId'' ''avatar_id'' TEXT [],
      Column ''description'' ''description'' TEXT [NotNull],
      Column ''iconUrl'' ''icon_url'' TEXT [NotNull],
      Column ''id'' ''id'' TEXT [NotNull],
      Column ''name'' ''name'' TEXT [NotNull],
      Column ''subtask'' ''subtask'' INTEGER [NotNull],
      Column ''url'' ''url'' TEXT [NotNull],
      Column ''elaboration'' ''elaboration'' TEXT []] @ housekeeping)
     [Unique [''id'', ''name''],
      CheckJSON ''elaboration'']"

definition urIngestSessionPlmAcctProjectIssue :: table_def where
  "urIngestSessionPlmAcctProjectIssue =
     Table ''urIngestSessionPlmAcctProjectIssue''
       ''ur_ingest_session_plm_acct_project_issue''
     ([Column ''urIngestSessionPlmAcctProjectIssueId'' ''ur_ingest_session_plm_acct_project_issue_id'' VARCHAR
        [PrimaryKey,
         NotNull],
      Column ''ingestSessionId'' ''ingest_session_id'' TEXT
        [NotNull,
         References ''urIngestSession'' ''urIngestSessionId''],
      Column ''urIngestSessionPlmAcctProjectId'' ''ur_ingest_session_plm_acct_project_id'' TEXT
        [NotNull,
         References ''urIngestSessionPlmAcctProject'' ''urIngestSessionPlmAcctProjectId''],
      Column ''uniformResourceId'' ''uniform_resource_id'' TEXT
        [References ''uniformResource'' ''uniformResourceId''],
      Column ''issueId'' ''issue_id'' TEXT [NotNull],
      Column ''issueNumber'' ''issue_number'' INTEGER [],
      Column ''parentIssueId'' ''parent_issue_id'' TEXT [],
      Column ''title'' ''title'' TEXT [NotNull],
      Column ''body'' ''body'' TEXT [],
      Column ''bodyText'' ''body_text'' TEXT [],
      Column ''bodyHtml'' ''body_html'' TEXT [],
      Column ''state'' ''state'' TEXT [NotNull],
      Column ''assignedTo'' ''assigned_to'' TEXT [],
      Column ''user'' ''user'' TEXT
        [NotNull,
         References ''urIngestSessionPlmUser'' ''urIngestSessionPlmUserId''],
      Column ''url'' ''url'' TEXT [NotNull],
      Column ''closedAt'' ''closed_at'' TEXT [],
      Column ''issueTypeId'' ''issue_type_id'' TEXT
        [References ''urIngestSessionPlmIssueType'' ''urIngestSessionPlmIssueTypeId''],
      Column ''timeEstimate'' ''time_estimate'' INTEGER [],
      Column ''aggregateTimeEstimate'' ''aggregate_time_estimate'' INTEGER [],
      Column ''timeOriginalEstimate'' ''time_original_estimate'' INTEGER [],
      Column ''timeSpent'' ''time_spent'' INTEGER [],
      Column ''aggregateTimeSpent'' ''aggregate_time_spent'' INTEGER [],
      Column ''aggregateTimeOriginalEstimate'' ''aggregate_time_original_estimate'' INTEGER [],
      Column ''workratio'' ''workratio'' INTEGER [],
      Column ''currentProgress'' ''current_progress'' INTEGER [],
      Column ''totalProgress'' ''total_progress'' INTEGER [],
      Column ''resolutionName'' ''resolution_name'' TEXT [],
      Column ''resolutionDate'' ''resolution_date'' TEXT [],
      Column ''elaboration'' ''elaboration'' TEXT []] @ housekeeping)
     [Unique [''title'', ''issueId'', ''state'', ''assignedTo''],
      CheckJSON ''elaboration'']"

definition urIngestSessionPlmAcctLabel :: table_def where
  "urIngestSessionPlmAcctLabel =
     Table ''urIngestSessionPlmAcctLabel''
       ''ur_ingest_session_plm_acct_label''
     ([Column ''urIngestSessionPlmAcctLabelId'' ''ur_ingest_session_plm_acct_label_id'' VARCHAR
        [PrimaryKey,
         NotNull],
      Column ''urIngestSessionPlmAcctProjectId'' ''ur_ingest_session_plm_acct_project_id'' TEXT
        [NotNull,
         References ''urIngestSessionPlmAcctProject'' ''urIngestSessionPlmAcctProjectId''],
      Column ''urIngestSessionPlmAcctProjectIssueId'' ''ur_ingest_session_plm_acct_project_issue_id'' TEXT
        [NotNull,
         References ''urIngestSessionPlmAcctProjectIssue'' ''urIngestSessionPlmAcctProjectIssueId''],
      Column ''label'' ''label'' TEXT [NotNull],
      Column ''elaboration'' ''elaboration'' TEXT []] @ housekeeping)
     [CheckJSON ''elaboration'']"

definition urIngestSessionPlmMilestone :: table_def where
  "urIngestSessionPlmMilestone =
     Table ''urIngestSessionPlmMilestone''
       ''ur_ingest_session_plm_milestone''
     ([Column ''urIngestSessionPlmMilestoneId'' ''ur_ingest_session_plm_milestone_id'' VARCHAR
        [PrimaryKey,
         NotNull],
      Column ''urIngestSessionPlmAcctProjectId'' ''ur_ingest_session_plm_acct_project_id'' TEXT
        [NotNull,
         References ''urIngestSessionPlmAcctProject'' ''urIngestSessionPlmAcctProjectId''],
      Column ''title'' ''title'' TEXT [NotNull],
      Column ''milestoneId'' ''milestone_id'' TEXT [NotNull],
      Column ''url'' ''url'' TEXT [NotNull],
      Column ''htmlUrl'' ''html_url'' TEXT [NotNull],
      Column ''openIssues'' ''open_issues'' INTEGER [],
      Column ''closedIssues'' ''closed_issues'' INTEGER [],
      Column ''dueOn'' ''due_on'' TIMESTAMPTZ [],
      Column ''closedAt'' ''closed_at'' TIMESTAMPTZ [],
      Column ''elaboration'' ''elaboration'' TEXT []] @ housekeeping)
     [CheckJSON ''elaboration'']"

definition urIngestSessionPlmAcctRelationship :: table_def where
  "urIngestSessionPlmAcctRelationship =
     Table ''urIngestSessionPlmAcctRelationship''
       ''ur_ingest_session_plm_acct_relationship''
     ([Column ''urIngestSessionPlmAcctRelationshipId'' ''ur_ingest_session_plm_acct_relationship_id'' VARCHAR
        [PrimaryKey,
         NotNull],
      Column ''urIngestSessionPlmAcctProjectIdPrime'' ''ur_ingest_session_plm_acct_project_id_prime'' TEXT
        [NotNull,
         References ''urIngestSessionPlmAcctProject'' ''urIngestSessionPlmAcctProjectId''],
      Column ''urIngestSessionPlmAcctProjectIdRelated'' ''ur_ingest_session_plm_acct_project_id_related'' TEXT
        [NotNull],
      Column ''urIngestSessionPlmAcctProjectIssueIdPrime'' ''ur_ingest_session_plm_acct_project_issue_id_prime'' TEXT
        [NotNull,
         References ''urIngestSessionPlmAcctProjectIssue'' ''urIngestSessionPlmAcctProjectIssueId''],
      Column ''urIngestSessionPlmAcctProjectIssueIdRelated'' ''ur_ingest_session_plm_acct_project_issue_id_related'' TEXT
        [NotNull],
      Column ''relationship'' ''relationship'' TEXT [],
      Column ''elaboration'' ''elaboration'' TEXT []] @ housekeeping)
     [CheckJSON ''elaboration'']"

definition urIngestSessionPlmComment :: table_def where
  "urIngestSessionPlmComment =
     Table ''urIngestSessionPlmComment''
       ''ur_ingest_session_plm_comment''
     ([Column ''urIngestSessionPlmCommentId'' ''ur_ingest_session_plm_comment_id'' VARCHAR
        [PrimaryKey,
         NotNull],
      Column ''urIngestSessionPlmAcctProjectIssueId'' ''ur_ingest_session_plm_acct_project_issue_id'' TEXT
        [NotNull,
         References ''urIngestSessionPlmAcctProjectIssue'' ''urIngestSessionPlmAcctProjectIssueId''],
      Column ''commentId'' ''comment_id'' TEXT [NotNull],
      Column ''nodeId'' ''node_id'' TEXT [NotNull],
      Column ''url'' ''url'' TEXT [NotNull],
      Column ''body'' ''body'' TEXT [],
      Column ''bodyText'' ''body_text'' TEXT [],
      Column ''bodyHtml'' ''body_html'' TEXT [],
      Column ''user'' ''user'' TEXT
        [NotNull,
         References ''urIngestSessionPlmUser'' ''urIngestSessionPlmUserId''],
      Column ''elaboration'' ''elaboration'' TEXT []] @ housekeeping)
     [Unique [''commentId'', ''url'', ''body''],
      CheckJSON ''elaboration'']"

definition urIngestSessionPlmReaction :: table_def where
  "urIngestSessionPlmReaction =
     Table ''urIngestSessionPlmReaction''
       ''ur_ingest_session_plm_reaction''
     ([Column ''urIngestSessionPlmReactionId'' ''ur_ingest_session_plm_reaction_id'' VARCHAR
        [PrimaryKey,
         NotNull],
      Column ''reactionId'' ''reaction_id'' TEXT [NotNull],
      Column ''reactionType'' ''reaction_type'' TEXT [NotNull],
      Column ''elaboration'' ''elaboration'' TEXT []] @ housekeeping)
     [Unique [''reactionType''],
      CheckJSON ''elaboration'']"

definition urIngestSessionPlmIssueReaction :: table_def where
  "urIngestSessionPlmIssueReaction =
     Table ''urIngestSessionPlmIssueReaction''
       ''ur_ingest_session_plm_issue_reaction''
     ([Column ''urIngestSessionPlmIssueReactionId'' ''ur_ingest_session_plm_issue_reaction_id'' VARCHAR
        [PrimaryKey,
         NotNull],
      Column ''urIngestPlmReactionId'' ''ur_ingest_plm_reaction_id'' TEXT
        [NotNull,
         References ''urIngestSessionPlmReaction'' ''urIngestSessionPlmReactionId''],
      Column ''urIngestPlmIssueId'' ''ur_ingest_plm_issue_id'' TEXT
        [NotNull,
         References ''urIngestSessionPlmAcctProjectIssue'' ''urIngestSessionPlmAcctProjectIssueId''],
      Column ''count'' ''count'' INTEGER [Default (DefaultInt 1)],
      Column ''elaboration'' ''elaboration'' TEXT []] @ housekeeping)
     [Unique [''urIngestPlmIssueId'', ''urIngestPlmReactionId''],
      CheckJSON ''elaboration'']"

definition urIngestSessionAttachment :: table_def where
  "urIngestSessionAttachment =
     Table ''urIngestSessionAttachment''
       ''ur_ingest_session_attachment''
     ([Column ''urIngestSessionAttachmentId'' ''ur_ingest_session_attachment_id'' TEXT
        [PrimaryKey,
         NotNull],
      Column ''uniformResourceId'' ''uniform_resource_id'' TEXT
        [References ''uniformResource'' ''uniformResourceId''],
      Column ''name'' ''name'' TEXT [],
      Column ''uri'' ''uri'' TEXT [NotNull],
      Column ''content'' ''content'' BLOB [],
      Column ''nature'' ''nature'' TEXT [],
      Column ''size'' ''size'' INTEGER [],
      Column ''checksum'' ''checksum'' TEXT [],
      Column ''elaboration'' ''elaboration'' TEXT []] @ housekeeping)
     [Index [''uniformResourceId'', ''content''],
      Unique [''uniformResourceId'', ''checksum'', ''nature'', ''size'']]"

definition urIngestSessionUdiPgpSql :: table_def where
  "urIngestSessionUdiPgpSql =
     Table ''urIngestSessionUdiPgpSql''
       ''ur_ingest_session_udi_pgp_sql''
     ([Column ''urIngestSessionUdiPgpSqlId'' ''ur_ingest_session_udi_pgp_sql_id'' TEXT
        [PrimaryKey,
         NotNull],
      Column ''sql'' ''sql'' TEXT [NotNull],
      Column ''nature'' ''nature'' TEXT [NotNull],
      Column ''content'' ''content'' BLOB [],
      Column ''behaviour'' ''behaviour'' TEXT [],
      Column ''queryError'' ''query_error'' TEXT [],
      Column ''uniformResourceId'' ''uniform_resource_id'' TEXT
        [References ''uniformResource'' ''uniformResourceId''],
      Column ''ingestSessionId'' ''ingest_session_id'' TEXT
        [References ''urIngestSession'' ''urIngestSessionId'']] @ housekeeping)
     [Index [''ingestSessionId''],
      Unique [''sql'', ''ingestSessionId''],
      CheckJSON ''behaviour'']"

definition orchestrationNature :: table_def where
  "orchestrationNature = Table ''orchestrationNature'' ''orchestration_nature''
     ([Column ''orchestrationNatureId'' ''orchestration_nature_id'' TEXT [PrimaryKey, NotNull],
      Column ''nature'' ''nature'' TEXT [NotNull],
      Column ''elaboration'' ''elaboration'' TEXT []] @ housekeeping)
     [Index [''orchestrationNatureId'', ''nature''],
      Unique [''orchestrationNatureId'', ''nature'']]"

definition orchestrationSession :: table_def where
  "orchestrationSession = Table ''orchestrationSession'' ''orchestration_session''
     ([Column ''orchestrationSessionId'' ''orchestration_session_id'' TEXT [PrimaryKey, NotNull],
      Column ''deviceId'' ''device_id'' TEXT [NotNull, References ''device'' ''deviceId''],
      Column ''orchestrationNatureId'' ''orchestration_nature_id'' TEXT
        [NotNull,
         References ''orchestrationNature'' ''orchestrationNatureId''],
      Column ''version'' ''version'' TEXT [NotNull],
      Column ''orchStartedAt'' ''orch_started_at'' TIMESTAMPTZ [],
      Column ''orchFinishedAt'' ''orch_finished_at'' TIMESTAMPTZ [],
      Column ''elaboration'' ''elaboration'' TEXT [],
      Column ''argsJson'' ''args_json'' TEXT [],
      Column ''diagnosticsJson'' ''diagnostics_json'' TEXT [],
      Column ''diagnosticsMd'' ''diagnostics_md'' TEXT []])
     [CheckJSON ''elaboration'',
      CheckJSON ''argsJson'',
      CheckJSON ''diagnosticsJson'']"

definition orchestrationSessionEntry :: table_def where
  "orchestrationSessionEntry =
     Table ''orchestrationSessionEntry''
       ''orchestration_session_entry''
     ([Column ''orchestrationSessionEntryId'' ''orchestration_session_entry_id'' TEXT
        [PrimaryKey,
         NotNull],
      Column ''sessionId'' ''session_id'' TEXT
        [NotNull,
         References ''orchestrationSession'' ''orchestrationSessionId''],
      Column ''ingestSrc'' ''ingest_src'' TEXT [NotNull],
      Column ''ingestTableName'' ''ingest_table_name'' TEXT [],
      Column ''elaboration'' ''elaboration'' TEXT []])
     []"

definition orchestrationSessionState :: table_def where
  "orchestrationSessionState =
     Table ''orchestrationSessionState''
       ''orchestration_session_state''
     ([Column ''orchestrationSessionStateId'' ''orchestration_session_state_id'' TEXT
        [PrimaryKey,
         NotNull],
      Column ''sessionId'' ''session_id'' TEXT
        [NotNull,
         References ''orchestrationSession'' ''orchestrationSessionId''],
      Column ''sessionEntryId'' ''session_entry_id'' TEXT
        [References ''orchestrationSessionEntry'' ''orchestrationSessionEntryId''],
      Column ''fromState'' ''from_state'' TEXT [NotNull],
      Column ''toState'' ''to_state'' TEXT [NotNull],
      Column ''transitionResult'' ''transition_result'' TEXT [],
      Column ''transitionReason'' ''transition_reason'' TEXT [],
      Column ''transitionedAt'' ''transitioned_at'' TIMESTAMPTZ [],
      Column ''elaboration'' ''elaboration'' TEXT []])
     [Unique [''orchestrationSessionStateId'', ''fromState'', ''toState'']]"

definition orchestrationSessionExec :: table_def where
  "orchestrationSessionExec = Table ''orchestrationSessionExec'' ''orchestration_session_exec''
     ([Column ''orchestrationSessionExecId'' ''orchestration_session_exec_id'' TEXT
        [PrimaryKey,
         NotNull],
      Column ''execNature'' ''exec_nature'' TEXT [NotNull],
      Column ''sessionId'' ''session_id'' TEXT
        [NotNull,
         References ''orchestrationSession'' ''orchestrationSessionId''],
      Column ''sessionEntryId'' ''session_entry_id'' TEXT
        [References ''orchestrationSessionEntry'' ''orchestrationSessionEntryId''],
      Column ''parentExecId'' ''parent_exec_id'' TEXT [],
      Column ''namespace'' ''namespace'' TEXT [],
      Column ''execIdentity'' ''exec_identity'' TEXT [],
      Column ''execCode'' ''exec_code'' TEXT [NotNull],
      Column ''execStatus'' ''exec_status'' INTEGER [NotNull],
      Column ''inputText'' ''input_text'' TEXT [],
      Column ''execErrorText'' ''exec_error_text'' TEXT [],
      Column ''outputText'' ''output_text'' TEXT [],
      Column ''outputNature'' ''output_nature'' TEXT [],
      Column ''narrativeMd'' ''narrative_md'' TEXT [],
      Column ''elaboration'' ''elaboration'' TEXT []])
     [ForeignKey [''parentExecId''] ''orchestrationSessionExec'' [''orchestrationSessionExecId'']]"

definition orchestrationSessionIssue :: table_def where
  "orchestrationSessionIssue =
     Table ''orchestrationSessionIssue''
       ''orchestration_session_issue''
     ([Column ''orchestrationSessionIssueId'' ''orchestration_session_issue_id'' NUMERIC
        [PrimaryKey,
         NotNull],
      Column ''sessionId'' ''session_id'' TEXT
        [NotNull,
         References ''orchestrationSession'' ''orchestrationSessionId''],
      Column ''sessionEntryId'' ''session_entry_id'' TEXT
        [References ''orchestrationSessionEntry'' ''orchestrationSessionEntryId''],
      Column ''issueType'' ''issue_type'' TEXT [NotNull],
      Column ''issueMessage'' ''issue_message'' TEXT [NotNull],
      Column ''issueRow'' ''issue_row'' INTEGER [],
      Column ''issueColumn'' ''issue_column'' TEXT [],
      Column ''invalidValue'' ''invalid_value'' TEXT [],
      Column ''remediation'' ''remediation'' TEXT [],
      Column ''elaboration'' ''elaboration'' TEXT []])
     []"

definition orchestrationSessionIssueRelation :: table_def where
  "orchestrationSessionIssueRelation =
     Table ''orchestrationSessionIssueRelation''
       ''orchestration_session_issue_relation''
     ([Column ''orchestrationSessionIssueRelationId'' ''orchestration_session_issue_relation_id'' NUMERIC
        [PrimaryKey,
         NotNull],
      Column ''issueIdPrime'' ''issue_id_prime'' NUMERIC
        [NotNull,
         References ''orchestrationSessionIssue'' ''orchestrationSessionIssueId''],
      Column ''issueIdRel'' ''issue_id_rel'' TEXT [NotNull],
      Column ''relationshipNature'' ''relationship_nature'' TEXT [NotNull],
      Column ''elaboration'' ''elaboration'' TEXT []])
     []"

definition orchestrationSessionLog :: table_def where
  "orchestrationSessionLog = Table ''orchestrationSessionLog'' ''orchestration_session_log''
     ([Column ''orchestrationSessionLogId'' ''orchestration_session_log_id'' NUMERIC
        [PrimaryKey,
         NotNull],
      Column ''category'' ''category'' TEXT [],
      Column ''parentExecId'' ''parent_exec_id'' NUMERIC [],
      Column ''content'' ''content'' TEXT [NotNull],
      Column ''siblingOrder'' ''sibling_order'' INTEGER [],
      Column ''elaboration'' ''elaboration'' TEXT []])
     [ForeignKey [''parentExecId''] ''orchestrationSessionLog'' [''orchestrationSessionLogId'']]"

definition uniformResourceGraph :: table_def where
  "uniformResourceGraph = Table ''uniformResourceGraph'' ''uniform_resource_graph''
     ([Column ''name'' ''name'' TEXT [PrimaryKey, NotNull],
      Column ''elaboration'' ''elaboration'' TEXT []])
     []"

definition uniformResourceEdge :: table_def where
  "uniformResourceEdge = Table ''uniformResourceEdge'' ''uniform_resource_edge''
     ([Column ''graphName'' ''graph_name'' TEXT
        [NotNull,
         References ''uniformResourceGraph'' ''name''],
      Column ''nature'' ''nature'' TEXT [NotNull],
      Column ''nodeId'' ''node_id'' TEXT [NotNull],
      Column ''uniformResourceId'' ''uniform_resource_id'' TEXT
        [NotNull,
         References ''uniformResource'' ''uniformResourceId''],
      Column ''elaboration'' ''elaboration'' TEXT []])
     [Index [''uniformResourceId''],
      Unique [''graphName'', ''nature'', ''nodeId'', ''uniformResourceId'']]"

definition surveilrOsqueryMsNode :: table_def where
  "surveilrOsqueryMsNode = Table ''surveilrOsqueryMsNode'' ''surveilr_osquery_ms_node''
     ([Column ''surveilrOsqueryMsNodeId'' ''surveilr_osquery_ms_node_id'' TEXT
        [PrimaryKey,
         NotNull],
      Column ''nodeKey'' ''node_key'' TEXT [NotNull],
      Column ''hostIdentifier'' ''host_identifier'' TEXT [NotNull],
      Column ''tlsCertSubject'' ''tls_cert_subject'' TEXT [],
      Column ''osVersion'' ''os_version'' TEXT [NotNull],
      Column ''platform'' ''platform'' TEXT [NotNull],
      Column ''lastSeen'' ''last_seen'' NUMERIC [NotNull],
      Column ''status'' ''status'' TEXT [Default (DefaultText ''active''), NotNull],
      Column ''osqueryVersion'' ''osquery_version'' TEXT [],
      Column ''osqueryBuildPlatform'' ''osquery_build_platform'' TEXT [NotNull],
      Column ''deviceId'' ''device_id'' TEXT [NotNull, References ''device'' ''deviceId''],
      Column ''behaviorId'' ''behavior_id'' TEXT [References ''behavior'' ''behaviorId''],
      Column ''accelerate'' ''accelerate'' INTEGER [Default (DefaultInt 60), NotNull]] @ housekeeping)
     [Index [''nodeKey''],
      Unique [''hostIdentifier'', ''osVersion''],
      Unique [''nodeKey'']]"

definition urIngestSessionOsqueryMsLog :: table_def where
  "urIngestSessionOsqueryMsLog =
     Table ''urIngestSessionOsqueryMsLog''
       ''ur_ingest_session_osquery_ms_log''
     ([Column ''urIngestSessionOsqueryMsLogId'' ''ur_ingest_session_osquery_ms_log_id'' TEXT
        [PrimaryKey,
         NotNull],
      Column ''nodeKey'' ''node_key'' TEXT
        [NotNull,
         References ''surveilrOsqueryMsNode'' ''nodeKey''],
      Column ''logType'' ''log_type'' TEXT [NotNull],
      Column ''logData'' ''log_data'' TEXT [NotNull],
      Column ''appliedJqFilters'' ''applied_jq_filters'' TEXT []] @ housekeeping)
     [Unique [''nodeKey'', ''logType'', ''logData'']]"

definition osqueryPolicy :: table_def where
  "osqueryPolicy = Table ''osqueryPolicy'' ''osquery_policy''
     ([Column ''osqueryPolicyId'' ''osquery_policy_id'' TEXT [PrimaryKey, NotNull],
      Column ''policyGroup'' ''policy_group'' TEXT [],
      Column ''policyName'' ''policy_name'' TEXT [NotNull],
      Column ''osqueryCode'' ''osquery_code'' TEXT [NotNull],
      Column ''policyDescription'' ''policy_description'' TEXT [NotNull],
      Column ''policyPassLabel'' ''policy_pass_label'' TEXT
        [Default (DefaultText ''Pass''),
         NotNull],
      Column ''policyFailLabel'' ''policy_fail_label'' TEXT
        [Default (DefaultText ''Fail''),
         NotNull],
      Column ''policyPassRemarks'' ''policy_pass_remarks'' TEXT [],
      Column ''policyFailRemarks'' ''policy_fail_remarks'' TEXT [],
      Column ''osqueryPlatforms'' ''osquery_platforms'' TEXT []] @ housekeeping)
     [Unique [''policyName'', ''osqueryCode'']]"

definition surveilrOsqueryMsDistributedQuery :: table_def where
  "surveilrOsqueryMsDistributedQuery =
     Table ''surveilrOsqueryMsDistributedQuery''
       ''surveilr_osquery_ms_distributed_query''
     ([Column ''queryId'' ''query_id'' TEXT [PrimaryKey, NotNull],
      Column ''nodeKey'' ''node_key'' TEXT
        [NotNull,
         References ''surveilrOsqueryMsNode'' ''nodeKey''],
      Column ''queryName'' ''query_name'' TEXT [NotNull],
      Column ''querySql'' ''query_sql'' TEXT [NotNull],
      Column ''discoveryQuery'' ''discovery_query'' TEXT [],
      Column ''status'' ''status'' TEXT [NotNull],
      Column ''elaboration'' ''elaboration'' TEXT [],
      Column ''interval'' ''interval'' INTEGER [NotNull]] @ housekeeping)
     []"

definition surveilrOsqueryMsDistributedResult :: table_def where
  "surveilrOsqueryMsDistributedResult =
     Table ''surveilrOsqueryMsDistributedResult''
       ''surveilr_osquery_ms_distributed_result''
     ([Column ''surveilrOsqueryMsDistributedResultId'' ''surveilr_osquery_ms_distributed_result_id'' TEXT
        [PrimaryKey,
         NotNull],
      Column ''queryId'' ''query_id'' TEXT
        [NotNull,
         References ''surveilrOsqueryMsDistributedQuery'' ''queryId''],
      Column ''nodeKey'' ''node_key'' TEXT
        [NotNull,
         References ''surveilrOsqueryMsNode'' ''nodeKey''],
      Column ''results'' ''results'' TEXT [NotNull],
      Column ''statusCode'' ''status_code'' INTEGER [NotNull]] @ housekeeping)
     []"

definition surveilrOsqueryMsCarve :: table_def where
  "surveilrOsqueryMsCarve = Table ''surveilrOsqueryMsCarve'' ''surveilr_osquery_ms_carve''
     ([Column ''surveilrOsqueryMsCarveId'' ''surveilr_osquery_ms_carve_id'' TEXT
        [PrimaryKey,
         NotNull],
      Column ''nodeKey'' ''node_key'' TEXT
        [NotNull,
         References ''surveilrOsqueryMsNode'' ''nodeKey''],
      Column ''sessionId'' ''session_id'' TEXT [NotNull],
      Column ''carveGuid'' ''carve_guid'' TEXT [NotNull],
      Column ''carveSize'' ''carve_size'' INTEGER [NotNull],
      Column ''blockCount'' ''block_count'' INTEGER [NotNull],
      Column ''blockSize'' ''block_size'' INTEGER [NotNull],
      Column ''receivedBlocks'' ''received_blocks'' INTEGER [Default (DefaultInt 0), NotNull],
      Column ''carvePath'' ''carve_path'' TEXT [],
      Column ''status'' ''status'' TEXT [NotNull],
      Column ''startTime'' ''start_time'' NUMERIC [NotNull],
      Column ''completionTime'' ''completion_time'' NUMERIC [],
      Column ''elaboration'' ''elaboration'' TEXT []] @ housekeeping)
     [Unique [''sessionId''],
      Unique [''carveGuid'']]"

definition surveilrOsqueryMsCarvedExtractedFile :: table_def where
  "surveilrOsqueryMsCarvedExtractedFile =
     Table ''surveilrOsqueryMsCarvedExtractedFile''
       ''surveilr_osquery_ms_carved_extracted_file''
     ([Column ''surveilrOsqueryMsCarvedExtractedFileId'' ''surveilr_osquery_ms_carved_extracted_file_id'' TEXT
        [PrimaryKey,
         NotNull],
      Column ''carveGuid'' ''carve_guid'' TEXT
        [NotNull,
         References ''surveilrOsqueryMsCarve'' ''carveGuid''],
      Column ''path'' ''path'' TEXT [NotNull],
      Column ''sizeBytes'' ''size_bytes'' INTEGER [NotNull],
      Column ''contentDigest'' ''content_digest'' TEXT [NotNull],
      Column ''nature'' ''nature'' TEXT [],
      Column ''extractedAt'' ''extracted_at'' TIMESTAMPTZ [NotNull]] @ housekeeping)
     [Index [''path'', ''carveGuid'']]"

definition surveilrSnmpDevice :: table_def where
  "surveilrSnmpDevice = Table ''surveilrSnmpDevice'' ''surveilr_snmp_device''
     ([Column ''surveilrSnmpDeviceId'' ''surveilr_snmp_device_id'' TEXT [PrimaryKey, NotNull],
      Column ''deviceKey'' ''device_key'' TEXT [NotNull],
      Column ''snmpHost'' ''snmp_host'' TEXT [NotNull],
      Column ''snmpPort'' ''snmp_port'' INTEGER [Default (DefaultInt 161), NotNull],
      Column ''snmpCommunity'' ''snmp_community'' TEXT [NotNull],
      Column ''snmpVersion'' ''snmp_version'' TEXT [Default (DefaultText ''2c''), NotNull],
      Column ''snmpTimeout'' ''snmp_timeout'' INTEGER [Default (DefaultInt 5), NotNull],
      Column ''snmpRetries'' ''snmp_retries'' INTEGER [Default (DefaultInt 3), NotNull],
      Column ''deviceType'' ''device_type'' TEXT [],
      Column ''deviceDescription'' ''device_description'' TEXT [],
      Column ''lastSeen'' ''last_seen'' NUMERIC [NotNull],
      Column ''status'' ''status'' TEXT [Default (DefaultText ''active''), NotNull],
      Column ''deviceId'' ''device_id'' TEXT [NotNull, References ''device'' ''deviceId''],
      Column ''behaviorId'' ''behavior_id'' TEXT [References ''behavior'' ''behaviorId''],
      Column ''elaboration'' ''elaboration'' TEXT []] @ housekeeping)
     [Index [''deviceKey''],
      Unique [''snmpHost'', ''snmpPort''],
      Unique [''deviceKey''],
      CheckJSON ''elaboration'']"

definition surveilrSnmpCollection :: table_def where
  "surveilrSnmpCollection = Table ''surveilrSnmpCollection'' ''surveilr_snmp_collection''
     ([Column ''surveilrSnmpCollectionId'' ''surveilr_snmp_collection_id'' TEXT
        [PrimaryKey,
         NotNull],
      Column ''deviceKey'' ''device_key'' TEXT
        [NotNull,
         References ''surveilrSnmpDevice'' ''deviceKey''],
      Column ''oid'' ''oid'' TEXT [NotNull],
      Column ''oidValue'' ''oid_value'' TEXT [NotNull],
      Column ''oidType'' ''oid_type'' TEXT [NotNull],
      Column ''collectedAt'' ''collected_at'' TIMESTAMPTZ [NotNull],
      Column ''elaboration'' ''elaboration'' TEXT []] @ housekeeping)
     [Index [''deviceKey'', ''oid''],
      Index [''collectedAt''],
      CheckJSON ''elaboration'']"

definition surveilrFunctionDoc :: table_def where
  "surveilrFunctionDoc = Table ''surveilrFunctionDoc'' ''surveilr_function_doc''
     ([Column ''name'' ''name'' TEXT [PrimaryKey],
      Column ''description'' ''description'' TEXT [],
      Column ''parameters'' ''parameters'' TEXT [],
      Column ''returnType'' ''return_type'' TEXT [],
      Column ''version'' ''version'' TEXT []])
     [CheckJSON ''parameters'']"

text \<open>All tables of the file, in declaration order.\<close>

definition schema :: "table_def list" where
  "schema = [sqleanDefine, assuranceSchema, device, codeNotebookKernel, codeNotebookCell,
     codeNotebookState, sqlpageFiles, surveilrTableSize, sqlpageAideNavigation,
     partyType, party, partyRelationType, partyRelation, genderType, sexType,
     personType, person, organization, organizationRoleType, organizationRole,
     devicePartyRelationship, behavior, urIngestResourcePathMatchRule,
     urIngestResourcePathRewriteRule, urIngestSession, urIngestSessionFsPath,
     uniformResource, uniformResourceTransform, urIngestSessionFsPathEntry,
     urIngestSessionTask, urIngestSessionImapAccount, urIngestSessionImapAcctFolder,
     urIngestSessionImapAcctFolderMessage, urIngestSessionPlmAccount,
     urIngestSessionPlmAcctProject, urIngestSessionPlmUser, urIngestSessionPlmIssueType,
     urIngestSessionPlmAcctProjectIssue, urIngestSessionPlmAcctLabel,
     urIngestSessionPlmMilestone, urIngestSessionPlmAcctRelationship,
     urIngestSessionPlmComment, urIngestSessionPlmReaction,
     urIngestSessionPlmIssueReaction, urIngestSessionAttachment,
     urIngestSessionUdiPgpSql, orchestrationNature, orchestrationSession,
     orchestrationSessionEntry, orchestrationSessionState, orchestrationSessionExec,
     orchestrationSessionIssue, orchestrationSessionIssueRelation,
     orchestrationSessionLog, uniformResourceGraph, uniformResourceEdge,
     surveilrOsqueryMsNode, urIngestSessionOsqueryMsLog, osqueryPolicy,
     surveilrOsqueryMsDistributedQuery, surveilrOsqueryMsDistributedResult,
     surveilrOsqueryMsCarve, surveilrOsqueryMsCarvedExtractedFile, surveilrSnmpDevice,
     surveilrSnmpCollection, surveilrFunctionDoc]"

section \<open>What the declared constraints mean to the store\<close>

text \<open>
  A row maps column keys to values; a store maps each table (by its exported name) to
  its rows in insertion order.  The constraints are read as SQLite reads the generated
  DDL, with foreign keys enforced:
  \<^item> a column left out of an insert takes its declared default, else \<open>NULL\<close>;
  \<open>NOT NULL\<close> rejects \<open>NULL\<close>;
  \<^item> \<open>checkJSON c\<close> is \<open>json_valid(c) OR c IS NULL\<close>; \<open>json_valid\<close> is SQLite's and is
  a parameter here;
  \<^item> a primary key and each \<open>unique().on(...)\<close> reject a row that agrees with a stored
  row on every listed column, where \<open>NULL\<close> agrees with nothing;
  \<^item> a reference with a non-\<open>NULL\<close> value needs a row of the referenced table carrying
  that value, looked up once the new row is in place (a row may refer to itself).
  Indexes constrain nothing.  A rejected insert leaves the store as it was.

  A value is stored as it is given: the typed inserts of drizzle hand a text column a
  string and an integer column a number, so the conversion between SQLite's storage
  classes plays no part.  Only inserts are modelled: rows are never removed (a deletion
  is a mark in the housekeeping columns) and updates are left out.
\<close>

type_synonym row = "(string \<times> sqlval) list"
type_synonym store = "string \<Rightarrow> row list"

datatype error =
    NoSuchColumn string
  | NotNullViolation string
  | CheckViolation string
  | UniqueViolation "string list"
  | ForeignKeyViolation "string list" string

definition cell :: "row \<Rightarrow> string \<Rightarrow> sqlval" where
  "cell r k = (case map_of r k of None \<Rightarrow> Null | Some v \<Rightarrow> v)"

fun default_of :: "string \<Rightarrow> modifier list \<Rightarrow> sqlval" where
  "default_of ts [] = Null"
| "default_of ts (Default CurrentTimestamp # ms) = Text ts"
| "default_of ts (Default (DefaultText v) # ms) = Text v"
| "default_of ts (Default (DefaultInt n) # ms) = Integer n"
| "default_of ts (m # ms) = default_of ts ms"

definition complete :: "string \<Rightarrow> table_def \<Rightarrow> row \<Rightarrow> row" where
  "complete ts t r =
     map (\<lambda>c. (key c, case map_of r (key c) of Some v \<Rightarrow> v
                                            | None \<Rightarrow> default_of ts (mods c)))
       (columns t)"

fun uniques_of :: "constraint list \<Rightarrow> string list list" where
  "uniques_of [] = []"
| "uniques_of (Unique u # cs) = u # uniques_of cs"
| "uniques_of (c # cs) = uniques_of cs"

definition unique_keys :: "table_def \<Rightarrow> string list list" where
  "unique_keys t =
     map (\<lambda>c. [key c]) (filter (\<lambda>c. PrimaryKey \<in> set (mods c)) (columns t))
     @ uniques_of (constraints t)"

fun json_checks :: "constraint list \<Rightarrow> string list" where
  "json_checks [] = []"
| "json_checks (CheckJSON k # cs) = k # json_checks cs"
| "json_checks (c # cs) = json_checks cs"

type_synonym fkey = "string list \<times> string \<times> string list"

fun refs_of :: "string \<Rightarrow> modifier list \<Rightarrow> fkey list" where
  "refs_of k [] = []"
| "refs_of k (References t c # ms) = ([k], t, [c]) # refs_of k ms"
| "refs_of k (m # ms) = refs_of k ms"

fun fkeys_of :: "constraint list \<Rightarrow> fkey list" where
  "fkeys_of [] = []"
| "fkeys_of (ForeignKey ks t cs # xs) = (ks, t, cs) # fkeys_of xs"
| "fkeys_of (x # xs) = fkeys_of xs"

definition foreign_keys :: "table_def \<Rightarrow> fkey list" where
  "foreign_keys t =
     concat (map (\<lambda>c. refs_of (key c) (mods c)) (columns t)) @ fkeys_of (constraints t)"

definition agree :: "string list \<Rightarrow> row \<Rightarrow> row \<Rightarrow> bool" where
  "agree u r0 r = list_all (\<lambda>k. cell r0 k \<noteq> Null \<and> cell r0 k = cell r k) u"

definition fk_ok :: "store \<Rightarrow> row \<Rightarrow> fkey \<Rightarrow> bool" where
  "fk_ok s r fk =
     (case fk of (ks, t, cs) \<Rightarrow>
        list_ex (\<lambda>k. cell r k = Null) ks
        \<or> list_ex (\<lambda>r0. map (cell r0) cs = map (cell r) ks) (s t))"

definition insert_row ::
  "(sqlval \<Rightarrow> bool) \<Rightarrow> string \<Rightarrow> table_def \<Rightarrow> row \<Rightarrow> store \<Rightarrow> error + store" where
  "insert_row json_valid ts t r s =
     (case find (\<lambda>k. k \<notin> set (map key (columns t))) (map fst r) of
        Some k \<Rightarrow> Inl (NoSuchColumn k)
      | None \<Rightarrow>
     let r' = complete ts t r in
     case find (\<lambda>c. NotNull \<in> set (mods c) \<and> cell r' (key c) = Null) (columns t) of
        Some c \<Rightarrow> Inl (NotNullViolation (key c))
      | None \<Rightarrow>
     case find (\<lambda>k. cell r' k \<noteq> Null \<and> \<not> json_valid (cell r' k))
            (json_checks (constraints t)) of
        Some k \<Rightarrow> Inl (CheckViolation k)
      | None \<Rightarrow>
     case find (\<lambda>u. list_ex (\<lambda>r0. agree u r0 r') (s (tsName t))) (unique_keys t) of
        Some u \<Rightarrow> Inl (UniqueViolation u)
      | None \<Rightarrow>
     let s' = s(tsName t := s (tsName t) @ [r']) in
     case find (\<lambda>fk. \<not> fk_ok s' r' fk) (foreign_keys t) of
        Some fk \<Rightarrow> Inl (ForeignKeyViolation (fst fk) (fst (snd fk)))
      | None \<Rightarrow> Inr s')"

text \<open>The stores that inserts into the tables of the schema build from the empty one.\<close>

definition empty_store :: store where
  "empty_store = (\<lambda>t. [])"

inductive reachable :: "(sqlval \<Rightarrow> bool) \<Rightarrow> store \<Rightarrow> bool" for json_valid where
  reachable_empty: "reachable json_valid empty_store"
| reachable_insert:
    "reachable json_valid s \<Longrightarrow> t \<in> set schema \<Longrightarrow>
     insert_row json_valid ts t r s = Inr s' \<Longrightarrow> reachable json_valid s'"

section \<open>Consistency of a store\<close>

text \<open>
  \<open>unique_on u rs\<close>: no two rows of \<open>rs\<close> agree on the key \<open>u\<close>.  A store is consistent
  when every table of the schema satisfies each of its declared constraints.
\<close>

fun unique_on :: "string list \<Rightarrow> row list \<Rightarrow> bool" where
  "unique_on u [] = True"
| "unique_on u (r # rs) = (\<not> list_ex (agree u r) rs \<and> unique_on u rs)"

definition not_null_keys :: "table_def \<Rightarrow> string list" where
  "not_null_keys t = map key (filter (\<lambda>c. NotNull \<in> set (mods c)) (columns t))"

definition consistent :: "(sqlval \<Rightarrow> bool) \<Rightarrow> store \<Rightarrow> bool" where
  "consistent json_valid s =
     (\<forall>t\<in>set schema.
        (\<forall>u\<in>set (unique_keys t). unique_on u (s (tsName t))) \<and>
        (\<forall>r\<in>set (s (tsName t)).
           (\<forall>c\<in>set (columns t). NotNull \<in> set (mods c) \<longrightarrow> cell r (key c) \<noteq> Null) \<and>
           (\<forall>k\<in>set (json_checks (constraints t)).
              cell r k = Null \<or> json_valid (cell r k)) \<and>
           (\<forall>fk\<in>set (foreign_keys t). fk_ok s r fk)))"

text \<open>The rows that carry the values \<open>vs\<close> in the columns \<open>u\<close>.\<close>

definition rows_with :: "string list \<Rightarrow> sqlval list \<Rightarrow> row list \<Rightarrow> row list" where
  "rows_with u vs rs = filter (\<lambda>r. map (cell r) u = vs) rs"

text \<open>A sequence of inserts, each with the clock reading at its time; the first
  rejected insert aborts the sequence.\<close>

fun run ::
  "(sqlval \<Rightarrow> bool) \<Rightarrow> (string \<times> table_def \<times> row) list \<Rightarrow> store \<Rightarrow> error + store" where
  "run json_valid [] s = Inr s"
| "run json_valid ((ts, t, r) # ops) s =
     (case insert_row json_valid ts t r s of
        Inl e \<Rightarrow> Inl e
      | Inr s' \<Rightarrow> run json_valid ops s')"

definition build :: "(sqlval \<Rightarrow> bool) \<Rightarrow> (string \<times> table_def \<times> row) list \<Rightarrow> store" where
  "build json_valid ops =
     (case run json_valid ops empty_store of Inl e \<Rightarrow> empty_store | Inr s \<Rightarrow> s)"

section \<open>Keys, identifiers and the envelope\<close>

text \<open>The columns of \<open>unique().on(table.deviceId, table.contentDigest, table.uri,
  table.sizeBytes)\<close> in \<open>uniformResource\<close>.\<close>

definition ur_key :: "string list" where
  "ur_key = [''deviceId'', ''contentDigest'', ''uri'', ''sizeBytes'']"

text \<open>The columns of \<open>unique().on(table.uniformResourceId, table.contentDigest,
  table.nature, table.sizeBytes)\<close> in \<open>uniformResourceTransform\<close>.\<close>

definition transform_key :: "string list" where
  "transform_key = [''uniformResourceId'', ''contentDigest'', ''nature'', ''sizeBytes'']"

text \<open>The columns of \<open>unique().on(table.graphName, table.nature, table.nodeId,
  table.uniformResourceId)\<close> in \<open>uniformResourceEdge\<close>, the edge row that the four
  arguments of a link make, the names of the registered graphs, and the store that an
  insert leaves behind (the store as it was, when the insert is rejected).\<close>

definition edge_key :: "string list" where
  "edge_key = [''graphName'', ''nature'', ''nodeId'', ''uniformResourceId'']"

definition edge_row :: "string \<Rightarrow> string \<Rightarrow> string \<Rightarrow> string \<Rightarrow> row" where
  "edge_row graphName nature nodeId resourceId =
     [(''graphName'', Text graphName), (''nature'', Text nature),
      (''nodeId'', Text nodeId), (''uniformResourceId'', Text resourceId)]"

definition graph_names :: "store \<Rightarrow> sqlval list" where
  "graph_names s = map (\<lambda>r. cell r ''name'') (s ''uniformResourceGraph'')"

definition store_after :: "store \<Rightarrow> error + store \<Rightarrow> store" where
  "store_after s res = (case res of Inl e \<Rightarrow> s | Inr s' \<Rightarrow> s')"

text \<open>The error of a rejected sequence of inserts, if any.\<close>

definition failure :: "error + store \<Rightarrow> error option" where
  "failure res = (case res of Inl e \<Rightarrow> Some e | Inr s \<Rightarrow> None)"

text \<open>The identifiers of the stored exec nodes and of the stored orchestration
  sessions.\<close>

definition exec_ids :: "store \<Rightarrow> sqlval list" where
  "exec_ids s =
     map (\<lambda>r. cell r ''orchestrationSessionExecId'') (s ''orchestrationSessionExec'')"

definition orch_session_ids :: "store \<Rightarrow> sqlval list" where
  "orch_session_ids s =
     map (\<lambda>r. cell r ''orchestrationSessionId'') (s ''orchestrationSession'')"

text \<open>A table carries the housekeeping envelope when each of the seven columns of
  \<open>housekeeping\<close> is one of its columns; it is free of it when none of their keys is
  the key of one of its columns.\<close>

definition carries_envelope :: "table_def \<Rightarrow> bool" where
  "carries_envelope t = list_all (\<lambda>c. c \<in> set (columns t)) housekeeping"

definition envelope_free :: "table_def \<Rightarrow> bool" where
  "envelope_free t = list_all (\<lambda>c. key c \<notin> set (map key (columns t))) housekeeping"

section \<open>Example data\<close>

text \<open>A validator that accepts the empty object only, and a few concrete rows.\<close>

definition json_valid_ex :: "sqlval \<Rightarrow> bool" where
  "json_valid_ex v = (v = Text ''{}'')"

definition device_D1 :: row where
  "device_D1 = [(''deviceId'', Text ''D1''), (''name'', Text ''laptop''),
                (''state'', Text ''{}''), (''boundary'', Text ''lan'')]"

definition session_S1 :: row where
  "session_S1 = [(''urIngestSessionId'', Text ''S1''), (''deviceId'', Text ''D1''),
                 (''ingestStartedAt'', Text ''t1''), (''sessionAgent'', Text ''{}'')]"

definition session_S2 :: row where
  "session_S2 = [(''urIngestSessionId'', Text ''S2''), (''deviceId'', Text ''D1''),
                 (''ingestStartedAt'', Text ''t1''), (''sessionAgent'', Text ''{}'')]"

definition one_session :: "(string \<times> table_def \<times> row) list" where
  "one_session = [(''t0'', device, device_D1), (''t1'', urIngestSession, session_S1)]"

definition device_D2 :: row where
  "device_D2 = [(''deviceId'', Text ''D2''), (''name'', Text ''desktop''),
                (''state'', Text ''{}''), (''boundary'', Text ''lan'')]"

definition two_devices :: "(string \<times> table_def \<times> row) list" where
  "two_devices = [(''t0'', device, device_D1), (''t0'', device, device_D2),
                  (''t1'', urIngestSession, session_S1)]"

definition resource_row :: "string \<Rightarrow> string \<Rightarrow> row" where
  "resource_row rid dev =
     [(''uniformResourceId'', Text rid), (''deviceId'', Text dev),
      (''ingestSessionId'', Text ''S1''), (''uri'', Text ''/a/b.txt''),
      (''contentDigest'', Text ''abc123''), (''sizeBytes'', Integer 42)]"

definition resource_row_sized :: "string \<Rightarrow> string \<Rightarrow> sqlval \<Rightarrow> row" where
  "resource_row_sized rid dev sz =
     [(''uniformResourceId'', Text rid), (''deviceId'', Text dev),
      (''ingestSessionId'', Text ''S1''), (''uri'', Text ''/a/b.txt''),
      (''contentDigest'', Text ''abc123''), (''sizeBytes'', sz)]"

definition with_resource :: "(string \<times> table_def \<times> row) list" where
  "with_resource = two_devices @ [(''t2'', uniformResource, resource_row ''R1'' ''D1'')]"

definition transform_row_of :: "string \<Rightarrow> string \<Rightarrow> sqlval \<Rightarrow> sqlval \<Rightarrow> row" where
  "transform_row_of tid digest nature sz =
     [(''uniformResourceTransformId'', Text tid), (''uniformResourceId'', Text ''R1''),
      (''uri'', Text ''/a/b.txt''), (''contentDigest'', Text digest),
      (''nature'', nature), (''sizeBytes'', sz)]"

definition with_graph :: "(string \<times> table_def \<times> row) list" where
  "with_graph = with_resource @ [(''t3'', uniformResourceGraph, [(''name'', Text ''G1'')])]"

definition orch_session_row :: "string \<Rightarrow> string \<Rightarrow> row" where
  "orch_session_row sid elab =
     [(''orchestrationSessionId'', Text sid), (''deviceId'', Text ''D1''),
      (''orchestrationNatureId'', Text ''N1''), (''version'', Text ''1''),
      (''elaboration'', Text elab)]"

definition two_orch_sessions :: "(string \<times> table_def \<times> row) list" where
  "two_orch_sessions =
     [(''t0'', device, device_D1),
      (''t0'', orchestrationNature,
         [(''orchestrationNatureId'', Text ''N1''), (''nature'', Text ''ingest'')]),
      (''t1'', orchestrationSession, orch_session_row ''OS1'' ''{}''),
      (''t1'', orchestrationSession, orch_session_row ''OS2'' ''{}'')]"

definition state_row :: "string \<Rightarrow> string \<Rightarrow> row" where
  "state_row stid reason =
     [(''orchestrationSessionStateId'', Text stid), (''sessionId'', Text ''OS1''),
      (''fromState'', Text ''OPEN''), (''toState'', Text ''RUNNING''),
      (''transitionReason'', Text reason)]"

definition exec_row :: "string \<Rightarrow> string \<Rightarrow> sqlval \<Rightarrow> string \<Rightarrow> row" where
  "exec_row eid sid parent elab =
     [(''orchestrationSessionExecId'', Text eid), (''execNature'', Text ''shell''),
      (''sessionId'', Text sid), (''parentExecId'', parent),
      (''execCode'', Text ''ls''), (''execStatus'', Integer 0),
      (''elaboration'', Text elab)]"

section \<open>The choice of a path match rule\<close>

text \<open>
  Modelled from the spec: the function that picks the match rule for a candidate path is
  not in \<open>models.ts\<close>, which declares only the table \<open>urIngestResourcePathMatchRule\<close>
  that stores the rules.  The specification says: ``among rules matching the same
  namespace, lower \<open>priority\<close> value wins; if priorities tie, declaration order
  (insertion order) wins''.  The rules are the rows of the table in insertion order.
  Whether a rule matches a path (regular expression, flags, glob filters) is the
  parameter \<open>matches\<close>; how the stored \<open>priority\<close>, a nullable text column, is read
  as a value that can be compared is the parameter \<open>prio\<close>.
\<close>

definition applicable ::
  "(row \<Rightarrow> string \<Rightarrow> bool) \<Rightarrow> string \<Rightarrow> string \<Rightarrow> row list \<Rightarrow> row list" where
  "applicable matches ns path rules =
     filter (\<lambda>r. cell r ''namespace'' = Text ns \<and> matches r path) rules"

fun first_lowest :: "(sqlval \<Rightarrow> 'p::linorder) \<Rightarrow> row list \<Rightarrow> row option" where
  "first_lowest prio [] = None"
| "first_lowest prio (r # rs) =
     (case first_lowest prio rs of
        None \<Rightarrow> Some r
      | Some b \<Rightarrow>
          if prio (cell b ''priority'') < prio (cell r ''priority'') then Some b else Some r)"

definition select_rule ::
  "(row \<Rightarrow> string \<Rightarrow> bool) \<Rightarrow> (sqlval \<Rightarrow> 'p::linorder) \<Rightarrow> string \<Rightarrow> string \<Rightarrow> row list
     \<Rightarrow> row option" where
  "select_rule matches prio ns path rules =
     first_lowest prio (applicable matches ns path rules)"

text \<open>An example: priorities read as text, \<open>NULL\<close> lowest; every rule whose regular
  expression is \<open>.*\<close> matches every path.\<close>

definition prio_text :: "sqlval \<Rightarrow> string option" where
  "prio_text v = (case v of Text s \<Rightarrow> Some s | _ \<Rightarrow> None)"

definition matches_all :: "row \<Rightarrow> string \<Rightarrow> bool" where
  "matches_all r path = (cell r ''regex'' = Text ''.*'')"

definition rule_row :: "string \<Rightarrow> string \<Rightarrow> string \<Rightarrow> row" where
  "rule_row rid flags priority =
     [(''urIngestResourcePathMatchRuleId'', Text rid), (''namespace'', Text ''default''),
      (''regex'', Text ''.*''), (''flags'', Text flags), (''priority'', Text priority)]"

section \<open>Inserts keep the store consistent\<close>

lemma tsName_schema:
  "map tsName schema =
     [''sqleanDefine'', ''assuranceSchema'', ''device'', ''codeNotebookKernel'',
      ''codeNotebookCell'', ''codeNotebookState'', ''sqlpageFiles'',
      ''surveilrTableSize'', ''sqlpageAideNavigation'', ''partyType'', ''party'',
      ''partyRelationType'', ''partyRelation'', ''genderType'', ''sexType'',
      ''personType'', ''person'', ''organization'', ''organizationRoleType'',
      ''organizationRole'', ''devicePartyRelationship'', ''behavior'',
      ''urIngestResourcePathMatchRule'', ''urIngestResourcePathRewriteRule'',
      ''urIngestSession'', ''urIngestSessionFsPath'', ''uniformResource'',
      ''uniformResourceTransform'', ''urIngestSessionFsPathEntry'',
      ''urIngestSessionTask'', ''urIngestSessionImapAccount'',
      ''urIngestSessionImapAcctFolder'', ''urIngestSessionImapAcctFolderMessage'',
      ''urIngestSessionPlmAccount'', ''urIngestSessionPlmAcctProject'',
      ''urIngestSessionPlmUser'', ''urIngestSessionPlmIssueType'',
      ''urIngestSessionPlmAcctProjectIssue'', ''urIngestSessionPlmAcctLabel'',
      ''urIngestSessionPlmMilestone'', ''urIngestSessionPlmAcctRelationship'',
      ''urIngestSessionPlmComment'', ''urIngestSessionPlmReaction'',
      ''urIngestSessionPlmIssueReaction'', ''urIngestSessionAttachment'',
      ''urIngestSessionUdiPgpSql'', ''orchestrationNature'',
      ''orchestrationSession'', ''orchestrationSessionEntry'',
      ''orchestrationSessionState'', ''orchestrationSessionExec'',
      ''orchestrationSessionIssue'', ''orchestrationSessionIssueRelation'',
      ''orchestrationSessionLog'', ''uniformResourceGraph'',
      ''uniformResourceEdge'', ''surveilrOsqueryMsNode'',
      ''urIngestSessionOsqueryMsLog'', ''osqueryPolicy'',
      ''surveilrOsqueryMsDistributedQuery'', ''surveilrOsqueryMsDistributedResult'',
      ''surveilrOsqueryMsCarve'', ''surveilrOsqueryMsCarvedExtractedFile'',
      ''surveilrSnmpDevice'', ''surveilrSnmpCollection'', ''surveilrFunctionDoc'']"
  by (simp add: schema_def sqleanDefine_def assuranceSchema_def device_def codeNotebookKernel_def
       codeNotebookCell_def codeNotebookState_def sqlpageFiles_def
       surveilrTableSize_def sqlpageAideNavigation_def partyType_def party_def
       partyRelationType_def partyRelation_def genderType_def sexType_def
       personType_def person_def organization_def organizationRoleType_def
       organizationRole_def devicePartyRelationship_def behavior_def
       urIngestResourcePathMatchRule_def urIngestResourcePathRewriteRule_def
       urIngestSession_def urIngestSessionFsPath_def uniformResource_def
       uniformResourceTransform_def urIngestSessionFsPathEntry_def
       urIngestSessionTask_def urIngestSessionImapAccount_def
       urIngestSessionImapAcctFolder_def urIngestSessionImapAcctFolderMessage_def
       urIngestSessionPlmAccount_def urIngestSessionPlmAcctProject_def
       urIngestSessionPlmUser_def urIngestSessionPlmIssueType_def
       urIngestSessionPlmAcctProjectIssue_def urIngestSessionPlmAcctLabel_def
       urIngestSessionPlmMilestone_def urIngestSessionPlmAcctRelationship_def
       urIngestSessionPlmComment_def urIngestSessionPlmReaction_def
       urIngestSessionPlmIssueReaction_def urIngestSessionAttachment_def
       urIngestSessionUdiPgpSql_def orchestrationNature_def orchestrationSession_def
       orchestrationSessionEntry_def orchestrationSessionState_def
       orchestrationSessionExec_def orchestrationSessionIssue_def
       orchestrationSessionIssueRelation_def orchestrationSessionLog_def
       uniformResourceGraph_def uniformResourceEdge_def surveilrOsqueryMsNode_def
       urIngestSessionOsqueryMsLog_def osqueryPolicy_def
       surveilrOsqueryMsDistributedQuery_def surveilrOsqueryMsDistributedResult_def
       surveilrOsqueryMsCarve_def surveilrOsqueryMsCarvedExtractedFile_def
       surveilrSnmpDevice_def surveilrSnmpCollection_def surveilrFunctionDoc_def)

lemma schema_distinct: "distinct (map tsName schema)"
  unfolding tsName_schema by simp

lemma schema_tsName_inj:
  "t \<in> set schema \<Longrightarrow> t' \<in> set schema \<Longrightarrow> tsName t = tsName t' \<Longrightarrow> t = t'"
  using schema_distinct by (meson distinct_map inj_onD)

lemma agree_sym: "agree u r0 r \<Longrightarrow> agree u r r0"
  by (induction u) (auto simp: agree_def)

lemma unique_on_snoc:
  "unique_on u (rs @ [r]) = (unique_on u rs \<and> \<not> list_ex (\<lambda>r0. agree u r0 r) rs)"
  by (induction rs) (auto simp: list_ex_iff dest: agree_sym)

lemma insert_row_InrD:
  assumes "insert_row jv ts t r s = Inr s'"
  shows "s' = s(tsName t := s (tsName t) @ [complete ts t r])"
    and "\<forall>c\<in>set (columns t). NotNull \<in> set (mods c) \<longrightarrow> cell (complete ts t r) (key c) \<noteq> Null"
    and "\<forall>k\<in>set (json_checks (constraints t)).
           cell (complete ts t r) k = Null \<or> jv (cell (complete ts t r) k)"
    and "\<forall>u\<in>set (unique_keys t). \<not> list_ex (\<lambda>r0. agree u r0 (complete ts t r)) (s (tsName t))"
    and "\<forall>fk\<in>set (foreign_keys t). fk_ok s' (complete ts t r) fk"
  using assms unfolding insert_row_def Let_def
  by (auto split: option.splits simp: find_None_iff)

lemma fk_ok_mono:
  "fk_ok s r fk \<Longrightarrow> (\<And>t. set (s t) \<subseteq> set (s' t)) \<Longrightarrow> fk_ok s' r fk"
  unfolding fk_ok_def list_ex_iff by (auto split: prod.splits)

lemma consistent_empty: "consistent jv empty_store"
  by (simp add: consistent_def empty_store_def)

lemma consistent_insert:
  assumes c: "consistent jv s" and t: "t \<in> set schema"
    and i: "insert_row jv ts t r s = Inr s'"
  shows "consistent jv s'"
proof -
  let ?r = "complete ts t r"
  note d = insert_row_InrD[OF i]
  have sub: "\<And>x. set (s x) \<subseteq> set (s' x)" by (auto simp: d(1))
  have A: "unique_on u (s' (tsName t'))"
    if t': "t' \<in> set schema" and u: "u \<in> set (unique_keys t')" for t' u
  proof (cases "tsName t' = tsName t")
    case True
    then have "t' = t" using schema_tsName_inj t t' by blast
    then show ?thesis using c t u d(4) by (simp add: d(1) unique_on_snoc consistent_def)
  next
    case False
    then show ?thesis using c t' u by (simp add: d(1) consistent_def)
  qed
  have B: "(\<forall>c\<in>set (columns t'). NotNull \<in> set (mods c) \<longrightarrow> cell r' (key c) \<noteq> Null) \<and>
           (\<forall>k\<in>set (json_checks (constraints t')). cell r' k = Null \<or> jv (cell r' k)) \<and>
           (\<forall>fk\<in>set (foreign_keys t'). fk_ok s' r' fk)"
    if t': "t' \<in> set schema" and r': "r' \<in> set (s' (tsName t'))" for t' r'
  proof -
    have old: "r' \<in> set (s (tsName t')) \<or> (t' = t \<and> r' = ?r)"
    proof (cases "tsName t' = tsName t")
      case True
      then have "t' = t" using schema_tsName_inj t t' by blast
      then show ?thesis using r' by (auto simp: d(1))
    next
      case False
      then show ?thesis using r' by (simp add: d(1))
    qed
    have "fk_ok s' r' fk" if fk: "fk \<in> set (foreign_keys t')" for fk
      using old
    proof
      assume "r' \<in> set (s (tsName t'))"
      then have "fk_ok s r' fk" using c t' fk unfolding consistent_def by blast
      then show ?thesis using sub by (rule fk_ok_mono)
    next
      assume "t' = t \<and> r' = ?r"
      then show ?thesis using d(5) fk by blast
    qed
    moreover have "\<forall>c\<in>set (columns t'). NotNull \<in> set (mods c) \<longrightarrow> cell r' (key c) \<noteq> Null"
      using old c t' d(2) unfolding consistent_def by blast
    moreover have "\<forall>k\<in>set (json_checks (constraints t')). cell r' k = Null \<or> jv (cell r' k)"
      using old c t' d(3) unfolding consistent_def by blast
    ultimately show ?thesis by blast
  qed
  show ?thesis unfolding consistent_def using A B by blast
qed

lemma reachable_consistent: "reachable jv s \<Longrightarrow> consistent jv s"
  by (induction rule: reachable.induct) (auto intro: consistent_empty consistent_insert)

lemma run_reachable:
  "reachable jv s \<Longrightarrow> \<forall>x\<in>set ops. fst (snd x) \<in> set schema \<Longrightarrow>
   run jv ops s = Inr s' \<Longrightarrow> reachable jv s'"
proof (induction ops arbitrary: s)
  case Nil
  then show ?case by simp
next
  case (Cons x ops)
  obtain ts t r where x: "x = (ts, t, r)" by (cases x)
  from Cons.prems(3) obtain s1 where s1: "insert_row jv ts t r s = Inr s1"
    and rest: "run jv ops s1 = Inr s'"
    by (auto simp: x split: sum.splits)
  have "reachable jv s1"
    using Cons.prems(1,2) s1 by (auto simp: x intro: reachable_insert)
  then show ?case using Cons.IH Cons.prems(2) rest by simp
qed

lemma not_null_cell:
  "consistent jv s \<Longrightarrow> t \<in> set schema \<Longrightarrow> r \<in> set (s (tsName t)) \<Longrightarrow>
   k \<in> set (not_null_keys t) \<Longrightarrow> cell r k \<noteq> Null"
  unfolding consistent_def not_null_keys_def by auto

lemma unique_on_count:
  "unique_on u rs \<Longrightarrow> Null \<notin> set vs \<Longrightarrow> length (rows_with u vs rs) \<le> 1"
proof (induction rs)
  case Nil
  then show ?case by (simp add: rows_with_def)
next
  case (Cons r rs)
  show ?case
  proof (cases "map (cell r) u = vs")
    case True
    have "rows_with u vs rs = []"
    proof (rule ccontr)
      assume "rows_with u vs rs \<noteq> []"
      then obtain r' where r': "r' \<in> set rs" "map (cell r') u = vs"
        by (auto simp: rows_with_def filter_empty_conv)
      have "agree u r r'"
        unfolding agree_def list_all_iff
      proof
        fix k assume k: "k \<in> set u"
        have "cell r k \<in> set vs" using True k by auto
        moreover have "cell r k = cell r' k" using True r'(2) k by (metis map_eq_conv)
        ultimately show "cell r k \<noteq> Null \<and> cell r k = cell r' k"
          using Cons.prems(2) by metis
      qed
      then show False using Cons.prems(1) r'(1) by (auto simp: list_ex_iff)
    qed
    then show ?thesis using True by (simp add: rows_with_def)
  next
    case False
    then show ?thesis using Cons by (simp add: rows_with_def)
  qed
qed

lemma build_reachable:
  "run jv ops empty_store = Inr s \<Longrightarrow> \<forall>x\<in>set ops. fst (snd x) \<in> set schema \<Longrightarrow>
   reachable jv (build jv ops)"
  using run_reachable[OF reachable_empty] by (simp add: build_def)

lemma rows_with_agree:
  assumes "r0 \<in> set (rows_with u vs rs)" and "Null \<notin> set vs" and "map (cell r) u = vs"
  shows "agree u r0 r"
  unfolding agree_def list_all_iff
proof
  fix k assume k: "k \<in> set u"
  have m0: "map (cell r0) u = vs" using assms(1) by (simp add: rows_with_def)
  have "cell r0 k \<in> set vs" using m0 k by auto
  moreover have "cell r0 k = cell r k" using m0 assms(3) k by (metis map_eq_conv)
  ultimately show "cell r0 k \<noteq> Null \<and> cell r0 k = cell r k"
    using assms(2) by metis
qed

lemma insert_row_Inr_iff:
  "insert_row jv ts t r s = Inr s' \<longleftrightarrow>
     (\<forall>k\<in>set (map fst r). k \<in> set (map key (columns t))) \<and>
     (\<forall>c\<in>set (columns t). NotNull \<in> set (mods c) \<longrightarrow> cell (complete ts t r) (key c) \<noteq> Null) \<and>
     (\<forall>k\<in>set (json_checks (constraints t)).
         cell (complete ts t r) k = Null \<or> jv (cell (complete ts t r) k)) \<and>
     (\<forall>u\<in>set (unique_keys t). \<not> list_ex (\<lambda>r0. agree u r0 (complete ts t r)) (s (tsName t))) \<and>
     (\<forall>fk\<in>set (foreign_keys t).
         fk_ok (s(tsName t := s (tsName t) @ [complete ts t r])) (complete ts t r) fk) \<and>
     s' = s(tsName t := s (tsName t) @ [complete ts t r])"
  unfolding insert_row_def Let_def
  by (auto split: option.splits simp: find_None_iff find_Some_iff) 

lemma insert_conflict:
  assumes "u \<in> set (unique_keys t)" and "r0 \<in> set (s (tsName t))"
    and "agree u r0 (complete ts t r)"
  shows "\<exists>e. insert_row jv ts t r s = Inl e"
proof (cases "insert_row jv ts t r s")
  case (Inl e) then show ?thesis by blast
next
  case (Inr s')
  then show ?thesis using insert_row_InrD(4)[OF Inr] assms by (auto simp: list_ex_iff)
qed

lemma insert_after_insert:
  assumes i1: "insert_row jv ts1 t r1 s = Inr s1"
    and i2: "insert_row jv ts2 t r2 s = Inr s2"
    and na: "\<forall>u\<in>set (unique_keys t). \<not> agree u (complete ts1 t r1) (complete ts2 t r2)"
  shows "insert_row jv ts2 t r2 s1 =
           Inr (s(tsName t := s (tsName t) @ [complete ts1 t r1, complete ts2 t r2]))"
proof -
  let ?n = "tsName t"
  have s1: "s1 = s(?n := s ?n @ [complete ts1 t r1])" using i1 by (simp add: insert_row_Inr_iff)
  note c2 = i2[unfolded insert_row_Inr_iff]
  have fk: "fk_ok (s1(?n := s1 ?n @ [complete ts2 t r2])) (complete ts2 t r2) fk"
    if "fk \<in> set (foreign_keys t)" for fk
  proof (rule fk_ok_mono)
    show "fk_ok (s(?n := s ?n @ [complete ts2 t r2])) (complete ts2 t r2) fk"
      using c2 that by blast
    show "\<And>x. set ((s(?n := s ?n @ [complete ts2 t r2])) x)
              \<subseteq> set ((s1(?n := s1 ?n @ [complete ts2 t r2])) x)"
      by (auto simp: s1)
  qed
  have un: "\<not> list_ex (\<lambda>r0. agree u r0 (complete ts2 t r2)) (s1 ?n)"
    if "u \<in> set (unique_keys t)" for u
    using c2 na that by (auto simp: s1 list_ex_iff)
  show ?thesis
    unfolding insert_row_Inr_iff using c2 fk un by (auto simp: s1)
qed

lemma key_count:
  assumes con: "consistent jv s" and t: "t \<in> set schema" and u: "u \<in> set (unique_keys t)"
    and nn: "\<forall>i<length u. vs ! i = Null \<longrightarrow> u ! i \<in> set (not_null_keys t)"
  shows "length (rows_with u vs (s (tsName t))) \<le> 1"
proof (cases "rows_with u vs (s (tsName t)) = []")
  case True then show ?thesis by simp
next
  case False
  then obtain r0 where r0: "r0 \<in> set (s (tsName t))" and m: "map (cell r0) u = vs"
    by (auto simp: rows_with_def filter_empty_conv)
  have "Null \<notin> set vs"
  proof
    assume "Null \<in> set vs"
    then obtain i where i: "i < length vs" "vs ! i = Null" by (auto simp: in_set_conv_nth)
    have len: "length vs = length u" using m by auto
    then have "u ! i \<in> set (not_null_keys t)" using nn i by simp
    then have "cell r0 (u ! i) \<noteq> Null" using not_null_cell[OF con t r0] by blast
    moreover have "cell r0 (u ! i) = vs ! i" using m i len by (metis nth_map)
    ultimately show False using i by simp
  qed
  moreover have "unique_on u (s (tsName t))" using con t u unfolding consistent_def by blast
  ultimately show ?thesis by (rule unique_on_count[rotated])
qed

lemma rows_with_after_insert:
  assumes i: "insert_row jv ts t r s = Inr s'" and u: "u \<in> set (unique_keys t)"
    and m: "map (cell (complete ts t r)) u = vs" and nn: "Null \<notin> set vs"
  shows "rows_with u vs (s' (tsName t)) = [complete ts t r]"
proof -
  have "rows_with u vs (s (tsName t)) = []"
  proof (rule ccontr)
    assume "rows_with u vs (s (tsName t)) \<noteq> []"
    then obtain r0 where r0: "r0 \<in> set (rows_with u vs (s (tsName t)))"
      by (cases "rows_with u vs (s (tsName t))") auto
    have "agree u r0 (complete ts t r)" using rows_with_agree[OF r0 nn m] .
    moreover have "r0 \<in> set (s (tsName t))" using r0 by (simp add: rows_with_def)
    ultimately show False using insert_row_InrD(4)[OF i] u by (auto simp: list_ex_iff)
  qed
  then show ?thesis using m by (simp add: insert_row_InrD(1)[OF i] rows_with_def)
qed

lemma run_append:
  "run jv (ops @ ops') s = (case run jv ops s of Inl e \<Rightarrow> Inl e | Inr s1 \<Rightarrow> run jv ops' s1)"
  by (induction ops arbitrary: s) (auto split: sum.splits)

lemma build_step:
  assumes "run jv (ops @ [(ts, t, r)]) empty_store = Inr s'"
  shows "insert_row jv ts t r (build jv ops) = Inr (build jv (ops @ [(ts, t, r)]))"
  using assms by (auto simp: run_append build_def split: sum.splits)

lemma build_reachable':
  "run jv (ops @ ops') empty_store = Inr s \<Longrightarrow> \<forall>x\<in>set ops. fst (snd x) \<in> set schema \<Longrightarrow>
   reachable jv (build jv ops)"
  using build_reachable[of jv ops] by (auto simp: run_append split: sum.splits)

lemma run_okI: "\<not> isl (run jv ops s) \<Longrightarrow> \<exists>s'. run jv ops s = Inr s'"
  by (cases "run jv ops s") auto

lemma agree_cell: "agree u r0 r \<Longrightarrow> k \<in> set u \<Longrightarrow> cell r0 k = cell r k"
  by (simp add: agree_def list_all_iff)

section \<open>Uniform resources\<close>

lemma uniformResource_facts:
  "uniformResource \<in> set schema"
  "tsName uniformResource = ''uniformResource''"
  "unique_keys uniformResource = [[''uniformResourceId''], ur_key]"
  "not_null_keys uniformResource =
     [''uniformResourceId'', ''deviceId'', ''ingestSessionId'', ''uri'', ''contentDigest'']"
  by (simp_all add: schema_def uniformResource_def unique_keys_def not_null_keys_def
      housekeeping_def ur_key_def)

text \<open>
  C1, as stated, fails where the size is not recorded: \<open>sizeBytes\<close> is nullable, and
  a \<open>NULL\<close> agrees with nothing in a uniqueness constraint.  The same device, digest
  and URI admitted twice with \<open>sizeBytes\<close> \<open>NULL\<close> are stored twice.
\<close>

theorem uniform_resource_unsized_twice_counterexample:
  "failure (run json_valid_ex
      (two_devices @
        [(''t2'', uniformResource, resource_row_sized ''R1'' ''D1'' Null),
         (''t3'', uniformResource, resource_row_sized ''R2'' ''D1'' Null)]) empty_store) = None \<and>
   rows_with ur_key [Text ''D1'', Text ''abc123'', Text ''/a/b.txt'', Null]
      (build json_valid_ex
        (two_devices @
          [(''t2'', uniformResource, resource_row_sized ''R1'' ''D1'' Null),
           (''t3'', uniformResource, resource_row_sized ''R2'' ''D1'' Null)])
        ''uniformResource'')
     = [complete ''t2'' uniformResource (resource_row_sized ''R1'' ''D1'' Null),
        complete ''t3'' uniformResource (resource_row_sized ''R2'' ''D1'' Null)]"
  by code_simp

text \<open>
  C1, amended.  Deduplication of uniform resources is keyed on the four columns
  \<open>(deviceId, contentDigest, uri, sizeBytes)\<close> and applies where the size is recorded.
  In every store built by inserts, for every device, digest, URI and size that is not
  \<open>NULL\<close>:
  \<^item> at most one row of \<open>uniformResource\<close> carries that key;
  \<^item> once a resource with that key is admitted, the key resolves to exactly that record,
  and every further insert of a row with the same key is rejected, so the table gains no
  row;
  \<^item> two rows that the store would each accept, with different identifiers, are both
  stored when admitted one after the other as soon as they differ in one of the four
  columns (so when only the device differs) or the size of the first is \<open>NULL\<close>.
\<close>

theorem uniform_resource_dedup:
  assumes "reachable jv s" and "n \<noteq> Null"
  shows "length (rows_with ur_key [d, h, u, n] (s ''uniformResource'')) \<le> 1 \<and>
     (insert_row jv ts uniformResource r s = Inr s1 \<longrightarrow>
      map (cell (complete ts uniformResource r)) ur_key = [d, h, u, n] \<longrightarrow>
        rows_with ur_key [d, h, u, n] (s1 ''uniformResource'') = [complete ts uniformResource r] \<and>
        (\<forall>ts' r'. map (cell (complete ts' uniformResource r')) ur_key = [d, h, u, n] \<longrightarrow>
           (\<exists>e. insert_row jv ts' uniformResource r' s1 = Inl e))) \<and>
     (insert_row jv ts uniformResource r s = Inr s1 \<longrightarrow>
      insert_row jv ts2 uniformResource r2 s = Inr s2 \<longrightarrow>
      cell (complete ts uniformResource r) ''uniformResourceId''
        \<noteq> cell (complete ts2 uniformResource r2) ''uniformResourceId'' \<longrightarrow>
      cell (complete ts uniformResource r) ''deviceId''
        \<noteq> cell (complete ts2 uniformResource r2) ''deviceId'' \<or>
      cell (complete ts uniformResource r) ''contentDigest''
        \<noteq> cell (complete ts2 uniformResource r2) ''contentDigest'' \<or>
      cell (complete ts uniformResource r) ''uri''
        \<noteq> cell (complete ts2 uniformResource r2) ''uri'' \<or>
      cell (complete ts uniformResource r) ''sizeBytes''
        \<noteq> cell (complete ts2 uniformResource r2) ''sizeBytes'' \<or>
      cell (complete ts uniformResource r) ''sizeBytes'' = Null \<longrightarrow>
        insert_row jv ts2 uniformResource r2 s1 =
          Inr (s(''uniformResource'' := s ''uniformResource''
                 @ [complete ts uniformResource r, complete ts2 uniformResource r2])))"
proof -
  let ?t = uniformResource
  have con: "consistent jv s" using assms(1) by (rule reachable_consistent)
  have A: "length (rows_with ur_key [d, h, u, n] (s ''uniformResource'')) \<le> 1"
    using key_count[OF con uniformResource_facts(1), of ur_key "[d, h, u, n]"] assms(2)
    by (simp add: uniformResource_facts ur_key_def nth_Cons split: nat.splits)
  have B: "rows_with ur_key [d, h, u, n] (s1 ''uniformResource'') = [complete ts ?t r] \<and>
        (\<forall>ts' r'. map (cell (complete ts' ?t r')) ur_key = [d, h, u, n] \<longrightarrow>
           (\<exists>e. insert_row jv ts' ?t r' s1 = Inl e))"
    if i: "insert_row jv ts ?t r s = Inr s1"
      and m: "map (cell (complete ts ?t r)) ur_key = [d, h, u, n]"
  proof -
    have nn: "Null \<notin> set [d, h, u, n]"
      using insert_row_InrD(2)[OF i] m assms(2)
      by (auto simp: ur_key_def uniformResource_def)
    have k: "ur_key \<in> set (unique_keys ?t)" by (simp add: uniformResource_facts)
    have rw: "rows_with ur_key [d, h, u, n] (s1 ''uniformResource'') = [complete ts ?t r]"
      using rows_with_after_insert[OF i k m nn] by (simp add: uniformResource_facts)
    have "\<exists>e. insert_row jv ts' ?t r' s1 = Inl e"
      if m': "map (cell (complete ts' ?t r')) ur_key = [d, h, u, n]" for ts' r'
    proof (rule insert_conflict[OF k])
      show "complete ts ?t r \<in> set (s1 (tsName ?t))"
        by (simp add: insert_row_InrD(1)[OF i])
      have "complete ts ?t r \<in> set (rows_with ur_key [d, h, u, n] (s1 ''uniformResource''))"
        by (simp add: rw)
      then show "agree ur_key (complete ts ?t r) (complete ts' ?t r')"
        using nn m' by (rule rows_with_agree)
    qed
    then show ?thesis using rw by blast
  qed
  have C: "insert_row jv ts2 ?t r2 s1 =
          Inr (s(''uniformResource'' := s ''uniformResource'' @ [complete ts ?t r, complete ts2 ?t r2]))"
    if i1: "insert_row jv ts ?t r s = Inr s1" and i2: "insert_row jv ts2 ?t r2 s = Inr s2"
      and ne: "cell (complete ts ?t r) ''uniformResourceId'' \<noteq> cell (complete ts2 ?t r2) ''uniformResourceId''"
      and nd: "cell (complete ts ?t r) ''deviceId'' \<noteq> cell (complete ts2 ?t r2) ''deviceId'' \<or>
               cell (complete ts ?t r) ''contentDigest'' \<noteq> cell (complete ts2 ?t r2) ''contentDigest'' \<or>
               cell (complete ts ?t r) ''uri'' \<noteq> cell (complete ts2 ?t r2) ''uri'' \<or>
               cell (complete ts ?t r) ''sizeBytes'' \<noteq> cell (complete ts2 ?t r2) ''sizeBytes'' \<or>
               cell (complete ts ?t r) ''sizeBytes'' = Null"
  proof -
    have "\<not> agree ur_key (complete ts ?t r) (complete ts2 ?t r2)"
      using nd by (auto simp: agree_def ur_key_def)
    moreover have "\<not> agree [''uniformResourceId''] (complete ts ?t r) (complete ts2 ?t r2)"
      using ne by (auto simp: agree_def)
    ultimately have "\<forall>u\<in>set (unique_keys ?t). \<not> agree u (complete ts ?t r) (complete ts2 ?t r2)"
      by (simp add: uniformResource_facts)
    from insert_after_insert[OF i1 i2 this] show ?thesis by (simp add: uniformResource_facts)
  qed
  show ?thesis using A B C by blast
qed

lemma two_devices_run:
  "\<exists>s. run json_valid_ex (two_devices @ [(''t2'', uniformResource, resource_row_sized ''R1'' ''D1'' (Integer 42))]) empty_store = Inr s"
  "\<exists>s. run json_valid_ex (two_devices @ [(''t3'', uniformResource, resource_row_sized ''R2'' ''D2'' (Integer 42))]) empty_store = Inr s"
  "\<exists>s. run json_valid_ex (two_devices @ [(''t3'', uniformResource, resource_row_sized ''R4'' ''D1'' (Integer 43))]) empty_store = Inr s"
  by (rule run_okI, code_simp)+

lemma resource_row_key:
  "map (cell (complete ts uniformResource (resource_row_sized rid dev sz))) ur_key
     = [Text dev, Text ''abc123'', Text ''/a/b.txt'', sz]"
  "cell (complete ts uniformResource (resource_row_sized rid dev sz)) ''uniformResourceId'' = Text rid"
  "cell (complete ts uniformResource (resource_row_sized rid dev sz)) ''deviceId'' = Text dev"
  "cell (complete ts uniformResource (resource_row_sized rid dev sz)) ''sizeBytes'' = sz"
  by (simp_all add: resource_row_sized_def complete_def cell_def uniformResource_def
      housekeeping_def ur_key_def)

theorem uniform_resource_dedup_witness:
  "length (rows_with ur_key [Text ''D1'', Text ''abc123'', Text ''/a/b.txt'', Integer 42]
      (build json_valid_ex two_devices ''uniformResource'')) \<le> 1 \<and>
   rows_with ur_key [Text ''D1'', Text ''abc123'', Text ''/a/b.txt'', Integer 42]
      (build json_valid_ex
         (two_devices @ [(''t2'', uniformResource, resource_row_sized ''R1'' ''D1'' (Integer 42))])
         ''uniformResource'')
     = [complete ''t2'' uniformResource (resource_row_sized ''R1'' ''D1'' (Integer 42))] \<and>
   (\<exists>e. insert_row json_valid_ex ''t3'' uniformResource
          (resource_row_sized ''R3'' ''D1'' (Integer 42))
      (build json_valid_ex
         (two_devices @ [(''t2'', uniformResource, resource_row_sized ''R1'' ''D1'' (Integer 42))]))
      = Inl e) \<and>
   insert_row json_valid_ex ''t3'' uniformResource (resource_row_sized ''R2'' ''D2'' (Integer 42))
      (build json_valid_ex
         (two_devices @ [(''t2'', uniformResource, resource_row_sized ''R1'' ''D1'' (Integer 42))]))
     = Inr ((build json_valid_ex two_devices)(''uniformResource'' :=
         build json_valid_ex two_devices ''uniformResource''
         @ [complete ''t2'' uniformResource (resource_row_sized ''R1'' ''D1'' (Integer 42)),
            complete ''t3'' uniformResource (resource_row_sized ''R2'' ''D2'' (Integer 42))])) \<and>
   insert_row json_valid_ex ''t3'' uniformResource (resource_row_sized ''R4'' ''D1'' (Integer 43))
      (build json_valid_ex
         (two_devices @ [(''t2'', uniformResource, resource_row_sized ''R1'' ''D1'' (Integer 42))]))
     = Inr ((build json_valid_ex two_devices)(''uniformResource'' :=
         build json_valid_ex two_devices ''uniformResource''
         @ [complete ''t2'' uniformResource (resource_row_sized ''R1'' ''D1'' (Integer 42)),
            complete ''t3'' uniformResource (resource_row_sized ''R4'' ''D1'' (Integer 43))]))"
proof -
  let ?r1 = "resource_row_sized ''R1'' ''D1'' (Integer 42)"
  let ?r2 = "resource_row_sized ''R2'' ''D2'' (Integer 42)"
  let ?r4 = "resource_row_sized ''R4'' ''D1'' (Integer 43)"
  let ?s = "build json_valid_ex two_devices"
  let ?s1 = "build json_valid_ex (two_devices @ [(''t2'', uniformResource, ?r1)])"
  let ?s2 = "build json_valid_ex (two_devices @ [(''t3'', uniformResource, ?r2)])"
  let ?s4 = "build json_valid_ex (two_devices @ [(''t3'', uniformResource, ?r4)])"
  obtain x where x: "run json_valid_ex (two_devices @ [(''t2'', uniformResource, ?r1)]) empty_store = Inr x"
    using two_devices_run(1) by blast
  obtain y where y: "run json_valid_ex (two_devices @ [(''t3'', uniformResource, ?r2)]) empty_store = Inr y"
    using two_devices_run(2) by blast
  obtain z where z: "run json_valid_ex (two_devices @ [(''t3'', uniformResource, ?r4)]) empty_store = Inr z"
    using two_devices_run(3) by blast
  have r: "reachable json_valid_ex ?s"
    by (rule build_reachable'[OF x]) (simp add: two_devices_def schema_def)
  have i1: "insert_row json_valid_ex ''t2'' uniformResource ?r1 ?s = Inr ?s1"
    using build_step[OF x] .
  have i2: "insert_row json_valid_ex ''t3'' uniformResource ?r2 ?s = Inr ?s2"
    using build_step[OF y] .
  have i4: "insert_row json_valid_ex ''t3'' uniformResource ?r4 ?s = Inr ?s4"
    using build_step[OF z] .
  have n: "Integer 42 \<noteq> Null" by simp
  have P: "length (rows_with ur_key [Text ''D1'', Text ''abc123'', Text ''/a/b.txt'', Integer 42]
              (?s ''uniformResource'')) \<le> 1 \<and>
      rows_with ur_key [Text ''D1'', Text ''abc123'', Text ''/a/b.txt'', Integer 42]
        (?s1 ''uniformResource'') = [complete ''t2'' uniformResource ?r1] \<and>
      (\<exists>e. insert_row json_valid_ex ''t3'' uniformResource
          (resource_row_sized ''R3'' ''D1'' (Integer 42)) ?s1 = Inl e) \<and>
      insert_row json_valid_ex ''t3'' uniformResource ?r2 ?s1
        = Inr (?s(''uniformResource'' := ?s ''uniformResource''
             @ [complete ''t2'' uniformResource ?r1, complete ''t3'' uniformResource ?r2]))"
    using uniform_resource_dedup[OF r n, of "Text ''D1''" "Text ''abc123''" "Text ''/a/b.txt''"
        "''t2''" ?r1 ?s1 "''t3''" ?r2 ?s2]
      i1 i2 resource_row_key
    by simp
  have Q: "insert_row json_valid_ex ''t3'' uniformResource ?r4 ?s1
        = Inr (?s(''uniformResource'' := ?s ''uniformResource''
             @ [complete ''t2'' uniformResource ?r1, complete ''t3'' uniformResource ?r4]))"
    using uniform_resource_dedup[OF r n, of "Text ''D1''" "Text ''abc123''" "Text ''/a/b.txt''"
        "''t2''" ?r1 ?s1 "''t3''" ?r4 ?s4]
      i1 i4 resource_row_key
    by simp
  show ?thesis using P Q by blast
qed

section \<open>Transforms\<close>

lemma uniformResourceTransform_facts:
  "uniformResourceTransform \<in> set schema"
  "tsName uniformResourceTransform = ''uniformResourceTransform''"
  "unique_keys uniformResourceTransform = [[''uniformResourceTransformId''], transform_key]"
  "not_null_keys uniformResourceTransform =
     [''uniformResourceTransformId'', ''uniformResourceId'', ''uri'', ''contentDigest'']"
  by (simp_all add: schema_def uniformResourceTransform_def unique_keys_def not_null_keys_def
      housekeeping_def transform_key_def)

text \<open>
  C3, as stated, fails where a key component is not recorded: \<open>nature\<close> and
  \<open>sizeBytes\<close> are nullable, and a \<open>NULL\<close> agrees with nothing in a uniqueness
  constraint.  Two transforms of the resource \<open>R1\<close> that are identical in all four
  components, with \<open>nature\<close> \<open>NULL\<close>, are stored as two rows.
\<close>

theorem transform_without_nature_twice_counterexample:
  "failure (run json_valid_ex
      (with_resource @
        [(''t4'', uniformResourceTransform, transform_row_of ''T1'' ''def456'' Null (Integer 7)),
         (''t5'', uniformResourceTransform, transform_row_of ''T3'' ''def456'' Null (Integer 7))])
      empty_store) = None \<and>
   rows_with transform_key [Text ''R1'', Text ''def456'', Null, Integer 7]
      (build json_valid_ex
        (with_resource @
          [(''t4'', uniformResourceTransform, transform_row_of ''T1'' ''def456'' Null (Integer 7)),
           (''t5'', uniformResourceTransform, transform_row_of ''T3'' ''def456'' Null (Integer 7))])
        ''uniformResourceTransform'')
     = [complete ''t4'' uniformResourceTransform (transform_row_of ''T1'' ''def456'' Null (Integer 7)),
        complete ''t5'' uniformResourceTransform (transform_row_of ''T3'' ''def456'' Null (Integer 7))]"
  by code_simp

text \<open>
  C3, amended.  Deduplication of transforms is keyed on the four columns
  \<open>(uniformResourceId, contentDigest, nature, sizeBytes)\<close> and applies where nature and
  size are recorded.  In every store built by inserts, for every resource, digest,
  nature and size, the last two not \<open>NULL\<close>:
  \<^item> at most one row of \<open>uniformResourceTransform\<close> carries that key;
  \<^item> once a transform with that key is admitted, the key resolves to exactly that row,
  and every further insert of a row with the same key is rejected;
  \<^item> two transforms that the store would each accept, with different identifiers, are
  both stored when admitted one after the other as soon as they differ in one of the
  four columns (so when only the nature, or only the size, differs) or the nature or the
  size of the first is \<open>NULL\<close>.
\<close>

theorem transform_dedup:
  assumes "reachable jv s" and "nt \<noteq> Null" and "n \<noteq> Null"
  shows "length (rows_with transform_key [rid, h, nt, n] (s ''uniformResourceTransform'')) \<le> 1 \<and>
     (insert_row jv ts uniformResourceTransform r s = Inr s1 \<longrightarrow>
      map (cell (complete ts uniformResourceTransform r)) transform_key = [rid, h, nt, n] \<longrightarrow>
        rows_with transform_key [rid, h, nt, n] (s1 ''uniformResourceTransform'')
          = [complete ts uniformResourceTransform r] \<and>
        (\<forall>ts' r'. map (cell (complete ts' uniformResourceTransform r')) transform_key
                     = [rid, h, nt, n] \<longrightarrow>
           (\<exists>e. insert_row jv ts' uniformResourceTransform r' s1 = Inl e))) \<and>
     (insert_row jv ts uniformResourceTransform r s = Inr s1 \<longrightarrow>
      insert_row jv ts2 uniformResourceTransform r2 s = Inr s2 \<longrightarrow>
      cell (complete ts uniformResourceTransform r) ''uniformResourceTransformId''
        \<noteq> cell (complete ts2 uniformResourceTransform r2) ''uniformResourceTransformId'' \<longrightarrow>
      cell (complete ts uniformResourceTransform r) ''uniformResourceId''
        \<noteq> cell (complete ts2 uniformResourceTransform r2) ''uniformResourceId'' \<or>
      cell (complete ts uniformResourceTransform r) ''contentDigest''
        \<noteq> cell (complete ts2 uniformResourceTransform r2) ''contentDigest'' \<or>
      cell (complete ts uniformResourceTransform r) ''nature''
        \<noteq> cell (complete ts2 uniformResourceTransform r2) ''nature'' \<or>
      cell (complete ts uniformResourceTransform r) ''sizeBytes''
        \<noteq> cell (complete ts2 uniformResourceTransform r2) ''sizeBytes'' \<or>
      cell (complete ts uniformResourceTransform r) ''nature'' = Null \<or>
      cell (complete ts uniformResourceTransform r) ''sizeBytes'' = Null \<longrightarrow>
        insert_row jv ts2 uniformResourceTransform r2 s1 =
          Inr (s(''uniformResourceTransform'' := s ''uniformResourceTransform''
                 @ [complete ts uniformResourceTransform r,
                    complete ts2 uniformResourceTransform r2])))"
proof -
  let ?t = uniformResourceTransform
  let ?vs = "[rid, h, nt, n]"
  have con: "consistent jv s" using assms(1) by (rule reachable_consistent)
  have A: "length (rows_with transform_key ?vs (s ''uniformResourceTransform'')) \<le> 1"
    using key_count[OF con uniformResourceTransform_facts(1), of transform_key ?vs] assms(2,3)
    by (simp add: uniformResourceTransform_facts transform_key_def nth_Cons split: nat.splits)
  have B: "rows_with transform_key ?vs (s1 ''uniformResourceTransform'') = [complete ts ?t r] \<and>
        (\<forall>ts' r'. map (cell (complete ts' ?t r')) transform_key = ?vs \<longrightarrow>
           (\<exists>e. insert_row jv ts' ?t r' s1 = Inl e))"
    if i: "insert_row jv ts ?t r s = Inr s1"
      and m: "map (cell (complete ts ?t r)) transform_key = ?vs"
  proof -
    have nn: "Null \<notin> set ?vs"
      using insert_row_InrD(2)[OF i] m assms(2,3)
      by (auto simp: transform_key_def uniformResourceTransform_def)
    have k: "transform_key \<in> set (unique_keys ?t)" by (simp add: uniformResourceTransform_facts)
    have rw: "rows_with transform_key ?vs (s1 ''uniformResourceTransform'') = [complete ts ?t r]"
      using rows_with_after_insert[OF i k m nn] by (simp add: uniformResourceTransform_facts)
    have "\<exists>e. insert_row jv ts' ?t r' s1 = Inl e"
      if m': "map (cell (complete ts' ?t r')) transform_key = ?vs" for ts' r'
    proof (rule insert_conflict[OF k])
      show "complete ts ?t r \<in> set (s1 (tsName ?t))"
        by (simp add: insert_row_InrD(1)[OF i])
      have "complete ts ?t r \<in> set (rows_with transform_key ?vs (s1 ''uniformResourceTransform''))"
        by (simp add: rw)
      then show "agree transform_key (complete ts ?t r) (complete ts' ?t r')"
        using nn m' by (rule rows_with_agree)
    qed
    then show ?thesis using rw by blast
  qed
  have C: "insert_row jv ts2 ?t r2 s1 =
          Inr (s(''uniformResourceTransform'' := s ''uniformResourceTransform''
                 @ [complete ts ?t r, complete ts2 ?t r2]))"
    if i1: "insert_row jv ts ?t r s = Inr s1" and i2: "insert_row jv ts2 ?t r2 s = Inr s2"
      and ne: "cell (complete ts ?t r) ''uniformResourceTransformId''
                 \<noteq> cell (complete ts2 ?t r2) ''uniformResourceTransformId''"
      and nd: "cell (complete ts ?t r) ''uniformResourceId'' \<noteq> cell (complete ts2 ?t r2) ''uniformResourceId'' \<or>
               cell (complete ts ?t r) ''contentDigest'' \<noteq> cell (complete ts2 ?t r2) ''contentDigest'' \<or>
               cell (complete ts ?t r) ''nature'' \<noteq> cell (complete ts2 ?t r2) ''nature'' \<or>
               cell (complete ts ?t r) ''sizeBytes'' \<noteq> cell (complete ts2 ?t r2) ''sizeBytes'' \<or>
               cell (complete ts ?t r) ''nature'' = Null \<or>
               cell (complete ts ?t r) ''sizeBytes'' = Null"
  proof -
    have "\<not> agree transform_key (complete ts ?t r) (complete ts2 ?t r2)"
      using nd by (auto simp: agree_def transform_key_def)
    moreover have "\<not> agree [''uniformResourceTransformId''] (complete ts ?t r) (complete ts2 ?t r2)"
      using ne by (auto simp: agree_def)
    ultimately have "\<forall>u\<in>set (unique_keys ?t). \<not> agree u (complete ts ?t r) (complete ts2 ?t r2)"
      by (simp add: uniformResourceTransform_facts)
    from insert_after_insert[OF i1 i2 this] show ?thesis
      by (simp add: uniformResourceTransform_facts)
  qed
  show ?thesis using A B C by blast
qed

lemma with_resource_run:
  "\<exists>s. run json_valid_ex (with_resource @ [(''t4'', uniformResourceTransform, transform_row_of ''T1'' ''def456'' (Text ''text/plain'') (Integer 7))]) empty_store = Inr s"
  "\<exists>s. run json_valid_ex (with_resource @ [(''t5'', uniformResourceTransform, transform_row_of ''T2'' ''def456'' (Text ''text/html'') (Integer 7))]) empty_store = Inr s"
  "\<exists>s. run json_valid_ex (with_resource @ [(''t5'', uniformResourceTransform, transform_row_of ''T4'' ''0a1b2c'' (Text ''text/plain'') (Integer 7))]) empty_store = Inr s"
  by (rule run_okI, code_simp)+

lemma transform_row_key:
  "map (cell (complete ts uniformResourceTransform (transform_row_of tid dg nature sz))) transform_key
     = [Text ''R1'', Text dg, nature, sz]"
  "cell (complete ts uniformResourceTransform (transform_row_of tid dg nature sz))
     ''uniformResourceTransformId'' = Text tid"
  "cell (complete ts uniformResourceTransform (transform_row_of tid dg nature sz))
     ''uniformResourceId'' = Text ''R1''"
  "cell (complete ts uniformResourceTransform (transform_row_of tid dg nature sz))
     ''contentDigest'' = Text dg"
  "cell (complete ts uniformResourceTransform (transform_row_of tid dg nature sz)) ''nature'' = nature"
  "cell (complete ts uniformResourceTransform (transform_row_of tid dg nature sz)) ''sizeBytes'' = sz"
  by (simp_all add: transform_row_of_def complete_def cell_def uniformResourceTransform_def
      housekeeping_def transform_key_def)

theorem transform_dedup_witness:
  "length (rows_with transform_key [Text ''R1'', Text ''def456'', Text ''text/plain'', Integer 7]
      (build json_valid_ex with_resource ''uniformResourceTransform'')) \<le> 1 \<and>
   rows_with transform_key [Text ''R1'', Text ''def456'', Text ''text/plain'', Integer 7]
      (build json_valid_ex
         (with_resource @ [(''t4'', uniformResourceTransform,
            transform_row_of ''T1'' ''def456'' (Text ''text/plain'') (Integer 7))])
         ''uniformResourceTransform'')
     = [complete ''t4'' uniformResourceTransform
          (transform_row_of ''T1'' ''def456'' (Text ''text/plain'') (Integer 7))] \<and>
   (\<exists>e. insert_row json_valid_ex ''t5'' uniformResourceTransform
          (transform_row_of ''T3'' ''def456'' (Text ''text/plain'') (Integer 7))
      (build json_valid_ex
         (with_resource @ [(''t4'', uniformResourceTransform,
            transform_row_of ''T1'' ''def456'' (Text ''text/plain'') (Integer 7))]))
      = Inl e) \<and>
   insert_row json_valid_ex ''t5'' uniformResourceTransform
        (transform_row_of ''T2'' ''def456'' (Text ''text/html'') (Integer 7))
      (build json_valid_ex
         (with_resource @ [(''t4'', uniformResourceTransform,
            transform_row_of ''T1'' ''def456'' (Text ''text/plain'') (Integer 7))]))
     = Inr ((build json_valid_ex with_resource)(''uniformResourceTransform'' :=
         build json_valid_ex with_resource ''uniformResourceTransform''
         @ [complete ''t4'' uniformResourceTransform
              (transform_row_of ''T1'' ''def456'' (Text ''text/plain'') (Integer 7)),
            complete ''t5'' uniformResourceTransform
              (transform_row_of ''T2'' ''def456'' (Text ''text/html'') (Integer 7))])) \<and>
   insert_row json_valid_ex ''t5'' uniformResourceTransform
        (transform_row_of ''T4'' ''0a1b2c'' (Text ''text/plain'') (Integer 7))
      (build json_valid_ex
         (with_resource @ [(''t4'', uniformResourceTransform,
            transform_row_of ''T1'' ''def456'' (Text ''text/plain'') (Integer 7))]))
     = Inr ((build json_valid_ex with_resource)(''uniformResourceTransform'' :=
         build json_valid_ex with_resource ''uniformResourceTransform''
         @ [complete ''t4'' uniformResourceTransform
              (transform_row_of ''T1'' ''def456'' (Text ''text/plain'') (Integer 7)),
            complete ''t5'' uniformResourceTransform
              (transform_row_of ''T4'' ''0a1b2c'' (Text ''text/plain'') (Integer 7))]))"
proof -
  let ?r1 = "transform_row_of ''T1'' ''def456'' (Text ''text/plain'') (Integer 7)"
  let ?r2 = "transform_row_of ''T2'' ''def456'' (Text ''text/html'') (Integer 7)"
  let ?r4 = "transform_row_of ''T4'' ''0a1b2c'' (Text ''text/plain'') (Integer 7)"
  let ?o1 = "(''t4'', uniformResourceTransform, ?r1)"
  let ?o2 = "(''t5'', uniformResourceTransform, ?r2)"
  let ?o4 = "(''t5'', uniformResourceTransform, ?r4)"
  let ?s = "build json_valid_ex with_resource"
  let ?s1 = "build json_valid_ex (with_resource @ [?o1])"
  let ?s2 = "build json_valid_ex (with_resource @ [?o2])"
  let ?s4 = "build json_valid_ex (with_resource @ [?o4])"
  obtain x where x: "run json_valid_ex (with_resource @ [?o1]) empty_store = Inr x"
    using with_resource_run(1) by blast
  obtain y where y: "run json_valid_ex (with_resource @ [?o2]) empty_store = Inr y"
    using with_resource_run(2) by blast
  obtain z where z: "run json_valid_ex (with_resource @ [?o4]) empty_store = Inr z"
    using with_resource_run(3) by blast
  have r: "reachable json_valid_ex ?s"
    by (rule build_reachable'[OF x]) (simp add: with_resource_def two_devices_def schema_def)
  have i1: "insert_row json_valid_ex ''t4'' uniformResourceTransform ?r1 ?s = Inr ?s1"
    using build_step[OF x] .
  have i2: "insert_row json_valid_ex ''t5'' uniformResourceTransform ?r2 ?s = Inr ?s2"
    using build_step[OF y] .
  have i4: "insert_row json_valid_ex ''t5'' uniformResourceTransform ?r4 ?s = Inr ?s4"
    using build_step[OF z] .
  have n: "Text ''text/plain'' \<noteq> Null" "Integer 7 \<noteq> Null" by simp_all
  have P: "length (rows_with transform_key [Text ''R1'', Text ''def456'', Text ''text/plain'', Integer 7]
              (?s ''uniformResourceTransform'')) \<le> 1 \<and>
      rows_with transform_key [Text ''R1'', Text ''def456'', Text ''text/plain'', Integer 7]
        (?s1 ''uniformResourceTransform'') = [complete ''t4'' uniformResourceTransform ?r1] \<and>
      (\<exists>e. insert_row json_valid_ex ''t5'' uniformResourceTransform
          (transform_row_of ''T3'' ''def456'' (Text ''text/plain'') (Integer 7)) ?s1 = Inl e) \<and>
      insert_row json_valid_ex ''t5'' uniformResourceTransform ?r2 ?s1
        = Inr (?s(''uniformResourceTransform'' := ?s ''uniformResourceTransform''
             @ [complete ''t4'' uniformResourceTransform ?r1,
                complete ''t5'' uniformResourceTransform ?r2]))"
    using transform_dedup[OF r n, of "Text ''R1''" "Text ''def456''"
        "''t4''" ?r1 ?s1 "''t5''" ?r2 ?s2]
      i1 i2 transform_row_key
    by simp
  have Q: "insert_row json_valid_ex ''t5'' uniformResourceTransform ?r4 ?s1
        = Inr (?s(''uniformResourceTransform'' := ?s ''uniformResourceTransform''
             @ [complete ''t4'' uniformResourceTransform ?r1,
                complete ''t5'' uniformResourceTransform ?r4]))"
    using transform_dedup[OF r n, of "Text ''R1''" "Text ''def456''"
        "''t4''" ?r1 ?s1 "''t5''" ?r4 ?s4]
      i1 i4 transform_row_key
    by simp
  show ?thesis using P Q by blast
qed

section \<open>Lineage graph edges\<close>

lemma uniformResourceEdge_facts:
  "uniformResourceEdge \<in> set schema"
  "tsName uniformResourceEdge = ''uniformResourceEdge''"
  "unique_keys uniformResourceEdge = [edge_key]"
  "not_null_keys uniformResourceEdge = edge_key"
  "json_checks (constraints uniformResourceEdge) = []"
  "foreign_keys uniformResourceEdge =
     [([''graphName''], ''uniformResourceGraph'', [''name'']),
      ([''uniformResourceId''], ''uniformResource'', [''uniformResourceId''])]"
  by (simp_all add: schema_def uniformResourceEdge_def unique_keys_def not_null_keys_def
      foreign_keys_def edge_key_def)

lemma edge_row_complete:
  "complete ts uniformResourceEdge (edge_row g n node rid) =
     [(''graphName'', Text g), (''nature'', Text n), (''nodeId'', Text node),
      (''uniformResourceId'', Text rid), (''elaboration'', Null)]"
  by (simp add: complete_def uniformResourceEdge_def edge_row_def)

lemma edge_row_agree:
  "agree edge_key (complete ts uniformResourceEdge (edge_row g n node rid))
     (complete ts' uniformResourceEdge (edge_row g n node rid))"
  by (simp add: edge_row_complete edge_key_def cell_def agree_def)

lemma edge_reinsert:
  assumes i: "insert_row jv ts uniformResourceEdge (edge_row g n node rid) s = Inr s1"
  shows "insert_row jv ts' uniformResourceEdge (edge_row g n node rid) s1
           = Inl (UniqueViolation edge_key)"
proof -
  let ?t = uniformResourceEdge
  let ?r = "complete ts ?t (edge_row g n node rid)"
  let ?r' = "complete ts' ?t (edge_row g n node rid)"
  note c = i[unfolded insert_row_Inr_iff]
  have 1: "find (\<lambda>k. k \<notin> set (map key (columns ?t))) (map fst (edge_row g n node rid)) = None"
    using c by (simp add: find_None_iff)
  have 2: "find (\<lambda>c. NotNull \<in> set (mods c) \<and> cell ?r' (key c) = Null) (columns ?t) = None"
    using c by (simp add: find_None_iff edge_row_complete)
  have 3: "find (\<lambda>u. list_ex (\<lambda>r0. agree u r0 ?r') (s1 (tsName ?t))) (unique_keys ?t)
             = Some edge_key"
    using c edge_row_agree[of ts g n node rid ts']
    by (simp add: uniformResourceEdge_facts list_ex_iff)
  show ?thesis
    unfolding insert_row_def Let_def using 1 2 3 by (simp add: uniformResourceEdge_facts)
qed

text \<open>
  C4.  Linking is idempotent.  A link with the arguments
  \<open>(graphName, nature, nodeId, resourceId)\<close> inserts the edge row made of them, with no
  lookup before.  When the insert has succeeded, the same link again is rejected by the
  uniqueness of \<open>(graphName, nature, nodeId, uniformResourceId)\<close> and by nothing else;
  and in every case the store after two links with the same arguments is the store after
  one.
\<close>

theorem edge_link_idempotent:
  "(insert_row jv ts uniformResourceEdge (edge_row g n node rid) s = Inr s1 \<longrightarrow>
      insert_row jv ts' uniformResourceEdge (edge_row g n node rid) s1
        = Inl (UniqueViolation edge_key)) \<and>
   store_after (store_after s (insert_row jv ts uniformResourceEdge (edge_row g n node rid) s))
     (insert_row jv ts' uniformResourceEdge (edge_row g n node rid)
        (store_after s (insert_row jv ts uniformResourceEdge (edge_row g n node rid) s)))
     = store_after s (insert_row jv ts uniformResourceEdge (edge_row g n node rid) s)"
proof -
  let ?t = uniformResourceEdge
  let ?e = "edge_row g n node rid"
  have ceq: "complete ts' ?t ?e = complete ts ?t ?e"
    by (simp add: edge_row_complete)
  have same: "insert_row jv ts' ?t ?e s = insert_row jv ts ?t ?e s"
    unfolding insert_row_def ceq ..
  show ?thesis
  proof (cases "insert_row jv ts ?t ?e s")
    case (Inl e)
    then show ?thesis using same by (simp add: store_after_def)
  next
    case (Inr s2)
    then show ?thesis using edge_reinsert[OF Inr, of ts'] by (auto simp: store_after_def)
  qed
qed

lemma with_graph_run:
  "\<exists>s. run json_valid_ex (with_graph @ [(''t4'', uniformResourceEdge, edge_row ''G1'' ''parent'' ''N1'' ''R1'')]) empty_store = Inr s"
  by (rule run_okI, code_simp)+

theorem edge_link_idempotent_witness:
  "insert_row json_valid_ex ''t5'' uniformResourceEdge (edge_row ''G1'' ''parent'' ''N1'' ''R1'')
     (build json_valid_ex
        (with_graph @ [(''t4'', uniformResourceEdge, edge_row ''G1'' ''parent'' ''N1'' ''R1'')]))
     = Inl (UniqueViolation edge_key)"
proof -
  let ?o = "(''t4'', uniformResourceEdge, edge_row ''G1'' ''parent'' ''N1'' ''R1'')"
  obtain x where x: "run json_valid_ex (with_graph @ [?o]) empty_store = Inr x"
    using with_graph_run by blast
  show ?thesis
    using edge_link_idempotent[of json_valid_ex "''t4''" "''G1''" "''parent''" "''N1''" "''R1''"
        "build json_valid_ex with_graph" "build json_valid_ex (with_graph @ [?o])" "''t5''"]
      build_step[OF x]
    by simp
qed

text \<open>
  C5.  Linking into a graph that is not registered fails.  In every store built by
  inserts: an insert of an edge row succeeds only if its graph name is the name of a row
  of \<open>uniformResourceGraph\<close>; a link whose graph name is not registered is rejected
  by the reference from \<open>graphName\<close> to \<open>uniformResourceGraph.name\<close> (the
  unknown-graph failure of the specification); and every stored edge row names a
  registered graph.
\<close>

theorem edge_graph_registered:
  assumes "reachable jv s"
  shows "(insert_row jv ts uniformResourceEdge r s = Inr s' \<longrightarrow>
           cell (complete ts uniformResourceEdge r) ''graphName'' \<in> set (graph_names s)) \<and>
         (Text g \<notin> set (graph_names s) \<longrightarrow>
           insert_row jv ts uniformResourceEdge (edge_row g n node rid) s
             = Inl (ForeignKeyViolation [''graphName''] ''uniformResourceGraph'')) \<and>
         (\<forall>e\<in>set (s ''uniformResourceEdge''). cell e ''graphName'' \<in> set (graph_names s))"
proof -
  let ?t = uniformResourceEdge
  have con: "consistent jv s" using assms by (rule reachable_consistent)
  have reg: "cell e ''graphName'' \<in> set (graph_names s')"
    if nn: "cell e ''graphName'' \<noteq> Null"
      and fk: "fk_ok s' e ([''graphName''], ''uniformResourceGraph'', [''name''])" for e s'
    using nn fk by (auto simp: fk_ok_def list_ex_iff graph_names_def intro: rev_image_eqI)
  have C: "\<forall>e\<in>set (s ''uniformResourceEdge''). cell e ''graphName'' \<in> set (graph_names s)"
  proof
    fix e assume e: "e \<in> set (s ''uniformResourceEdge'')"
    have "cell e ''graphName'' \<noteq> Null"
      using not_null_cell[OF con uniformResourceEdge_facts(1), of e "''graphName''"] e
      by (simp add: uniformResourceEdge_facts edge_key_def)
    moreover have "fk_ok s e ([''graphName''], ''uniformResourceGraph'', [''name''])"
      using con e uniformResourceEdge_facts unfolding consistent_def
      by (metis list.set_intros(1))
    ultimately show "cell e ''graphName'' \<in> set (graph_names s)" by (rule reg)
  qed
  have A: "cell (complete ts ?t r) ''graphName'' \<in> set (graph_names s)"
    if i: "insert_row jv ts ?t r s = Inr s'"
  proof -
    have "cell (complete ts ?t r) ''graphName'' \<noteq> Null"
      using insert_row_InrD(2)[OF i] by (auto simp: uniformResourceEdge_def)
    moreover have "fk_ok s' (complete ts ?t r) ([''graphName''], ''uniformResourceGraph'', [''name''])"
      using insert_row_InrD(5)[OF i] by (simp add: uniformResourceEdge_facts)
    ultimately have "cell (complete ts ?t r) ''graphName'' \<in> set (graph_names s')" by (rule reg)
    then show ?thesis
      by (simp add: graph_names_def insert_row_InrD(1)[OF i] uniformResourceEdge_facts)
  qed
  have B: "insert_row jv ts ?t (edge_row g n node rid) s
             = Inl (ForeignKeyViolation [''graphName''] ''uniformResourceGraph'')"
    if g: "Text g \<notin> set (graph_names s)"
  proof -
    let ?r = "complete ts ?t (edge_row g n node rid)"
    have 1: "find (\<lambda>k. k \<notin> set (map key (columns ?t))) (map fst (edge_row g n node rid)) = None"
      by (simp add: find_None_iff edge_row_def uniformResourceEdge_def)
    have 2: "find (\<lambda>c. NotNull \<in> set (mods c) \<and> cell ?r (key c) = Null) (columns ?t) = None"
      unfolding edge_row_complete
      by (simp add: find_None_iff uniformResourceEdge_def cell_def)
    have "\<not> agree edge_key r0 ?r" if r0: "r0 \<in> set (s ''uniformResourceEdge'')" for r0
    proof
      assume "agree edge_key r0 ?r"
      then have "cell r0 ''graphName'' = cell ?r ''graphName''"
        by (rule agree_cell) (simp add: edge_key_def)
      then have "cell r0 ''graphName'' = Text g"
        by (simp add: edge_row_complete cell_def)
      then show False using C r0 g by auto
    qed
    then have 3: "find (\<lambda>u. list_ex (\<lambda>r0. agree u r0 ?r) (s (tsName ?t))) (unique_keys ?t) = None"
      by (simp add: uniformResourceEdge_facts list_ex_iff)
    have cg: "cell ?r ''graphName'' = Text g"
      by (simp add: edge_row_complete cell_def)
    have "\<not> fk_ok (s(''uniformResourceEdge'' := s ''uniformResourceEdge'' @ [?r])) ?r
             ([''graphName''], ''uniformResourceGraph'', [''name''])"
    proof -
      have ng: "Text g \<notin> (\<lambda>r. cell r ''name'') ` set (s ''uniformResourceGraph'')"
        using g by (simp add: graph_names_def)
      have "\<forall>r0\<in>set (s ''uniformResourceGraph''). cell r0 ''name'' \<noteq> Text g"
      proof
        fix r0 assume "r0 \<in> set (s ''uniformResourceGraph'')"
        then have "cell r0 ''name'' \<in> (\<lambda>r. cell r ''name'') ` set (s ''uniformResourceGraph'')"
          by (rule imageI)
        then show "cell r0 ''name'' \<noteq> Text g" using ng by metis
      qed
      then show ?thesis
        by (simp add: fk_ok_def list_ex_iff cg)
    qed
    then have 4: "find (\<lambda>fk. \<not> fk_ok (s(tsName ?t := s (tsName ?t) @ [?r])) ?r fk) (foreign_keys ?t)
        = Some ([''graphName''], ''uniformResourceGraph'', [''name''])"
      by (simp add: uniformResourceEdge_facts)
    show ?thesis
      unfolding insert_row_def Let_def using 1 2 3 4 by (simp add: uniformResourceEdge_facts)
  qed
  show ?thesis using A B C by blast
qed

lemma with_graph_run2:
  "\<exists>s. run json_valid_ex (with_graph @ [(''t6'', uniformResourceEdge, edge_row ''G1'' ''child'' ''N2'' ''R1'')]) empty_store = Inr s"
  by (rule run_okI, code_simp)+

theorem edge_graph_registered_witness:
  "Text ''G1'' \<in> set (graph_names (build json_valid_ex with_graph)) \<and>
   insert_row json_valid_ex ''t6'' uniformResourceEdge (edge_row ''G2'' ''child'' ''N2'' ''R1'')
     (build json_valid_ex with_graph)
     = Inl (ForeignKeyViolation [''graphName''] ''uniformResourceGraph'') \<and>
   cell (complete ''t6'' uniformResourceEdge (edge_row ''G1'' ''child'' ''N2'' ''R1'')) ''graphName''
     \<in> set (graph_names (build json_valid_ex
          (with_graph @ [(''t6'', uniformResourceEdge, edge_row ''G1'' ''child'' ''N2'' ''R1'')])))"
proof -
  let ?o = "(''t6'', uniformResourceEdge, edge_row ''G1'' ''child'' ''N2'' ''R1'')"
  obtain x where x: "run json_valid_ex (with_graph @ [?o]) empty_store = Inr x"
    using with_graph_run2 by blast
  have r: "reachable json_valid_ex (build json_valid_ex with_graph)"
    by (rule build_reachable'[OF x])
      (simp add: with_graph_def with_resource_def two_devices_def schema_def)
  have r1: "reachable json_valid_ex (build json_valid_ex (with_graph @ [?o]))"
    by (rule build_reachable[OF x])
      (simp add: with_graph_def with_resource_def two_devices_def schema_def)
  have g2: "Text ''G2'' \<notin> set (graph_names (build json_valid_ex with_graph))"
    by code_simp
  have c: "cell (complete ''t6'' uniformResourceEdge (edge_row ''G1'' ''child'' ''N2'' ''R1'')) ''graphName''
      = Text ''G1''"
    by (simp add: edge_row_complete cell_def)
  have e: "complete ''t6'' uniformResourceEdge (edge_row ''G1'' ''child'' ''N2'' ''R1'')
      \<in> set (build json_valid_ex (with_graph @ [?o]) ''uniformResourceEdge'')"
    using insert_row_InrD(1)[OF build_step[OF x]] by (simp add: uniformResourceEdge_facts)
  have A: "Text ''G1'' \<in> set (graph_names (build json_valid_ex with_graph))"
    and B: "insert_row json_valid_ex ''t6'' uniformResourceEdge
              (edge_row ''G2'' ''child'' ''N2'' ''R1'') (build json_valid_ex with_graph)
            = Inl (ForeignKeyViolation [''graphName''] ''uniformResourceGraph'')"
    using edge_graph_registered[OF r, of "''t6''" "edge_row ''G1'' ''child'' ''N2'' ''R1''"
        "build json_valid_ex (with_graph @ [?o])" "''G2''" "''child''" "''N2''" "''R1''"]
      build_step[OF x] g2 c
    by simp_all
  have "\<forall>e\<in>set (build json_valid_ex (with_graph @ [?o]) ''uniformResourceEdge'').
          cell e ''graphName'' \<in> set (graph_names (build json_valid_ex (with_graph @ [?o])))"
    using edge_graph_registered[OF r1, of "''t6''" "[]" "empty_store" "''G2''" "''child''" "''N2''" "''R1''"]
    by blast
  then have C: "cell (complete ''t6'' uniformResourceEdge (edge_row ''G1'' ''child'' ''N2'' ''R1''))
      ''graphName'' \<in> set (graph_names (build json_valid_ex (with_graph @ [?o])))"
    using e by blast
  show ?thesis using A B C by blast
qed


section \<open>Orchestration session states\<close>

text \<open>
  The key that \<open>orchestrationSessionState\<close> declares beside its primary key starts with
  the primary key itself, \<open>orchestrationSessionStateId\<close>; the sibling table
  \<open>codeNotebookState\<close> keys its transitions on the owning cell instead.
\<close>

lemma state_unique_keys:
  "unique_keys orchestrationSessionState =
     [[''orchestrationSessionStateId''],
      [''orchestrationSessionStateId'', ''fromState'', ''toState'']]"
  "unique_keys codeNotebookState =
     [[''codeNotebookStateId''], [''codeNotebookCellId'', ''fromState'', ''toState'']]"
  by (simp_all add: unique_keys_def orchestrationSessionState_def codeNotebookState_def
      housekeeping_def)

text \<open>
  C2.  The claim: the table enforces the uniqueness of (owner, \<open>fromState\<close>,
  \<open>toState\<close>), so that a transition recorded twice leaves one row.  The code at a
  concrete input: the transition \<open>OPEN\<close> to \<open>RUNNING\<close> of the session \<open>OS1\<close> is
  recorded twice, as \<open>ST1\<close> with the reason \<open>r1\<close> and as \<open>ST2\<close> with the reason
  \<open>r2\<close>.  Both inserts are accepted, and the table then holds two rows for that
  session and that transition, the older one first.
\<close>

theorem session_state_transition_appended:
  "failure (run json_valid_ex
      (two_orch_sessions @
        [(''t2'', orchestrationSessionState, state_row ''ST1'' ''r1''),
         (''t3'', orchestrationSessionState, state_row ''ST2'' ''r2'')]) empty_store) = None \<and>
   rows_with [''sessionId'', ''sessionEntryId'', ''fromState'', ''toState'']
      [Text ''OS1'', Null, Text ''OPEN'', Text ''RUNNING'']
      (build json_valid_ex
        (two_orch_sessions @
          [(''t2'', orchestrationSessionState, state_row ''ST1'' ''r1''),
           (''t3'', orchestrationSessionState, state_row ''ST2'' ''r2'')])
        ''orchestrationSessionState'')
     = [complete ''t2'' orchestrationSessionState (state_row ''ST1'' ''r1''),
        complete ''t3'' orchestrationSessionState (state_row ''ST2'' ''r2'')]"
  by code_simp

section \<open>The exec tree\<close>

text \<open>
  C8, as stated, fails: the exec node \<open>E1\<close> belongs to the session \<open>OS1\<close>, and the
  store accepts the node \<open>E2\<close> of the session \<open>OS2\<close> with \<open>E1\<close> as its parent.
  The only constraint on \<open>parentExecId\<close> is the reference to
  \<open>orchestrationSessionExecId\<close>.
\<close>

theorem exec_parent_other_session_counterexample:
  "failure (run json_valid_ex
      (two_orch_sessions @
        [(''t2'', orchestrationSessionExec, exec_row ''E1'' ''OS1'' Null ''{}''),
         (''t3'', orchestrationSessionExec, exec_row ''E2'' ''OS2'' (Text ''E1'') ''{}'')])
      empty_store) = None \<and>
   rows_with [''orchestrationSessionExecId'', ''sessionId'', ''parentExecId'']
      [Text ''E2'', Text ''OS2'', Text ''E1'']
      (build json_valid_ex
        (two_orch_sessions @
          [(''t2'', orchestrationSessionExec, exec_row ''E1'' ''OS1'' Null ''{}''),
           (''t3'', orchestrationSessionExec, exec_row ''E2'' ''OS2'' (Text ''E1'') ''{}'')])
        ''orchestrationSessionExec'')
     = [complete ''t3'' orchestrationSessionExec (exec_row ''E2'' ''OS2'' (Text ''E1'') ''{}'')] \<and>
   rows_with [''orchestrationSessionExecId''] [Text ''E1'']
      (build json_valid_ex
        (two_orch_sessions @
          [(''t2'', orchestrationSessionExec, exec_row ''E1'' ''OS1'' Null ''{}''),
           (''t3'', orchestrationSessionExec, exec_row ''E2'' ''OS2'' (Text ''E1'') ''{}'')])
        ''orchestrationSessionExec'')
     = [complete ''t2'' orchestrationSessionExec (exec_row ''E1'' ''OS1'' Null ''{}'')] \<and>
   cell (complete ''t2'' orchestrationSessionExec (exec_row ''E1'' ''OS1'' Null ''{}'')) ''sessionId''
     = Text ''OS1''"
  by code_simp

lemma fk_ok_single:
  "fk_ok s r ([k], t, [c]) \<longleftrightarrow> cell r k = Null \<or> cell r k \<in> (\<lambda>r0. cell r0 c) ` set (s t)"
  by (auto simp: fk_ok_def list_ex_iff intro: rev_image_eqI)

lemma orchestrationSessionExec_facts:
  "orchestrationSessionExec \<in> set schema"
  "tsName orchestrationSessionExec = ''orchestrationSessionExec''"
  "''sessionId'' \<in> set (not_null_keys orchestrationSessionExec)"
  "foreign_keys orchestrationSessionExec =
     [([''sessionId''], ''orchestrationSession'', [''orchestrationSessionId'']),
      ([''sessionEntryId''], ''orchestrationSessionEntry'', [''orchestrationSessionEntryId'']),
      ([''parentExecId''], ''orchestrationSessionExec'', [''orchestrationSessionExecId''])]"
  by (simp_all add: schema_def orchestrationSessionExec_def not_null_keys_def foreign_keys_def)

text \<open>
  C8, amended.  In every store built by inserts, every exec node belongs to a stored
  orchestration session and, when its \<open>parentExecId\<close> is not \<open>NULL\<close>, that is the
  identifier of a stored exec node, of whatever session; an insert of a node succeeds
  only if its parent is \<open>NULL\<close> (a root), a stored node, or the node itself.
\<close>

theorem exec_parent_exists:
  assumes "reachable jv s"
  shows "(\<forall>e\<in>set (s ''orchestrationSessionExec'').
            cell e ''sessionId'' \<in> set (orch_session_ids s) \<and>
            (cell e ''parentExecId'' \<noteq> Null \<longrightarrow> cell e ''parentExecId'' \<in> set (exec_ids s))) \<and>
         (insert_row jv ts orchestrationSessionExec r s = Inr s' \<longrightarrow>
            cell (complete ts orchestrationSessionExec r) ''parentExecId'' = Null \<or>
            cell (complete ts orchestrationSessionExec r) ''parentExecId'' \<in> set (exec_ids s) \<or>
            cell (complete ts orchestrationSessionExec r) ''parentExecId''
              = cell (complete ts orchestrationSessionExec r) ''orchestrationSessionExecId'')"
proof -
  let ?t = orchestrationSessionExec
  have con: "consistent jv s" using assms by (rule reachable_consistent)
  have A: "cell e ''sessionId'' \<in> set (orch_session_ids s) \<and>
            (cell e ''parentExecId'' \<noteq> Null \<longrightarrow> cell e ''parentExecId'' \<in> set (exec_ids s))"
    if e: "e \<in> set (s ''orchestrationSessionExec'')" for e
  proof -
    have fk: "\<forall>fk\<in>set (foreign_keys ?t). fk_ok s e fk"
      using con e orchestrationSessionExec_facts(1,2) unfolding consistent_def by metis
    have nn: "cell e ''sessionId'' \<noteq> Null"
      using not_null_cell[OF con orchestrationSessionExec_facts(1), of e "''sessionId''"] e
      by (simp add: orchestrationSessionExec_facts)
    show ?thesis using fk nn
      by (auto simp: orchestrationSessionExec_facts(4) fk_ok_single exec_ids_def orch_session_ids_def)
  qed
  have B: "cell (complete ts ?t r) ''parentExecId'' = Null \<or>
            cell (complete ts ?t r) ''parentExecId'' \<in> set (exec_ids s) \<or>
            cell (complete ts ?t r) ''parentExecId''
              = cell (complete ts ?t r) ''orchestrationSessionExecId''"
    if i: "insert_row jv ts ?t r s = Inr s'"
  proof -
    have "fk_ok s' (complete ts ?t r)
            ([''parentExecId''], ''orchestrationSessionExec'', [''orchestrationSessionExecId''])"
      using insert_row_InrD(5)[OF i] by (simp add: orchestrationSessionExec_facts(4))
    then show ?thesis
      by (auto simp: fk_ok_single insert_row_InrD(1)[OF i] orchestrationSessionExec_facts(2)
          exec_ids_def)
  qed
  show ?thesis using A B by blast
qed

lemma cross_session_run:
  "\<exists>s. run json_valid_ex
      (two_orch_sessions @
        [(''t2'', orchestrationSessionExec, exec_row ''E1'' ''OS1'' Null ''{}''),
         (''t3'', orchestrationSessionExec, exec_row ''E2'' ''OS2'' (Text ''E1'') ''{}'')])
      empty_store = Inr s"
  by (rule run_okI, code_simp)

theorem exec_parent_exists_witness:
  "Text ''OS2'' \<in> set (orch_session_ids (build json_valid_ex
        (two_orch_sessions @
          [(''t2'', orchestrationSessionExec, exec_row ''E1'' ''OS1'' Null ''{}''),
           (''t3'', orchestrationSessionExec, exec_row ''E2'' ''OS2'' (Text ''E1'') ''{}'')]))) \<and>
   Text ''E1'' \<in> set (exec_ids (build json_valid_ex
        (two_orch_sessions @
          [(''t2'', orchestrationSessionExec, exec_row ''E1'' ''OS1'' Null ''{}''),
           (''t3'', orchestrationSessionExec, exec_row ''E2'' ''OS2'' (Text ''E1'') ''{}'')])))"
proof -
  let ?ops = "two_orch_sessions @
          [(''t2'', orchestrationSessionExec, exec_row ''E1'' ''OS1'' Null ''{}''),
           (''t3'', orchestrationSessionExec, exec_row ''E2'' ''OS2'' (Text ''E1'') ''{}'')]"
  let ?e2 = "complete ''t3'' orchestrationSessionExec (exec_row ''E2'' ''OS2'' (Text ''E1'') ''{}'')"
  obtain x where x: "run json_valid_ex ?ops empty_store = Inr x"
    using cross_session_run by blast
  have r: "reachable json_valid_ex (build json_valid_ex ?ops)"
    by (rule build_reachable[OF x]) (simp add: two_orch_sessions_def schema_def)
  have e2: "?e2 \<in> set (build json_valid_ex ?ops ''orchestrationSessionExec'')"
    by code_simp
  have p: "cell ?e2 ''parentExecId'' = Text ''E1''" "cell ?e2 ''sessionId'' = Text ''OS2''"
    by code_simp+
  from exec_parent_exists[OF r, of "''t4''" "[]" empty_store] e2 p
  show ?thesis by force
qed

section \<open>Structured attributes\<close>

text \<open>The tables that have a column \<open>elaboration\<close> and no \<open>checkJSON\<close> on it.\<close>

lemma elaboration_unchecked_tables:
  "map tsName (filter (\<lambda>t. ''elaboration'' \<in> set (map key (columns t)) \<and>
                            ''elaboration'' \<notin> set (json_checks (constraints t))) schema) =
     [''sqlpageAideNavigation'', ''party'', ''urIngestSessionImapAccount'',
      ''urIngestSessionImapAcctFolder'', ''urIngestSessionAttachment'',
      ''orchestrationNature'', ''orchestrationSessionEntry'', ''orchestrationSessionState'',
      ''orchestrationSessionExec'', ''orchestrationSessionIssue'',
      ''orchestrationSessionIssueRelation'', ''orchestrationSessionLog'',
      ''uniformResourceGraph'', ''uniformResourceEdge'',
      ''surveilrOsqueryMsDistributedQuery'', ''surveilrOsqueryMsCarve'']"
  by code_simp

text \<open>
  C7.  The claim: on every table, a write of a structured attribute that is not valid
  JSON (and not \<open>NULL\<close>) is rejected.  The code at a concrete input: with a validator
  that rejects the text \<open>not json\<close>, an exec node whose \<open>elaboration\<close> is that text
  is accepted and stored as given, since \<open>orchestrationSessionExec\<close> declares no
  \<open>checkJSON\<close>; the same text in the \<open>elaboration\<close> of an orchestration session is
  rejected by the check that \<open>orchestrationSession\<close> declares.
\<close>

theorem exec_elaboration_unchecked:
  "\<not> json_valid_ex (Text ''not json'') \<and>
   failure (run json_valid_ex
      (two_orch_sessions @
        [(''t2'', orchestrationSessionExec, exec_row ''E1'' ''OS1'' Null ''not json'')])
      empty_store) = None \<and>
   rows_with [''orchestrationSessionExecId'', ''elaboration''] [Text ''E1'', Text ''not json'']
      (build json_valid_ex
        (two_orch_sessions @
          [(''t2'', orchestrationSessionExec, exec_row ''E1'' ''OS1'' Null ''not json'')])
        ''orchestrationSessionExec'')
     = [complete ''t2'' orchestrationSessionExec (exec_row ''E1'' ''OS1'' Null ''not json'')] \<and>
   failure (run json_valid_ex
      (two_orch_sessions @
        [(''t2'', orchestrationSession, orch_session_row ''OS3'' ''not json'')])
      empty_store) = Some (CheckViolation ''elaboration'')"
  by code_simp

section \<open>The housekeeping envelope\<close>

text \<open>
  C6, as stated, fails: the six orchestration tables that the claim names are declared
  without \<open>...housekeeping\<close>.
\<close>

theorem housekeeping_envelope_counterexample:
  "\<not> carries_envelope orchestrationSession \<and>
   \<not> carries_envelope orchestrationSessionEntry \<and>
   \<not> carries_envelope orchestrationSessionState \<and>
   \<not> carries_envelope orchestrationSessionExec \<and>
   \<not> carries_envelope orchestrationSessionIssue \<and>
   \<not> carries_envelope orchestrationSessionLog"
  by code_simp

text \<open>
  C6, amended.  Every table of the schema either carries all seven columns of the
  envelope or none of them, and the tables without it are the four utility tables
  \<open>sqleanDefine\<close>, \<open>sqlpageFiles\<close>, \<open>surveilrTableSize\<close> and
  \<open>sqlpageAideNavigation\<close>, the seven orchestration tables from
  \<open>orchestrationSession\<close> to \<open>orchestrationSessionLog\<close>, the graph and edge tables
  and \<open>surveilrFunctionDoc\<close>; every other table carries it.
\<close>

theorem housekeeping_envelope:
  "(\<forall>t\<in>set schema. carries_envelope t \<or> envelope_free t) \<and>
   map tsName (filter (\<lambda>t. \<not> carries_envelope t) schema) =
     [''sqleanDefine'', ''sqlpageFiles'', ''surveilrTableSize'', ''sqlpageAideNavigation'',
      ''orchestrationSession'', ''orchestrationSessionEntry'', ''orchestrationSessionState'',
      ''orchestrationSessionExec'', ''orchestrationSessionIssue'',
      ''orchestrationSessionIssueRelation'', ''orchestrationSessionLog'',
      ''uniformResourceGraph'', ''uniformResourceEdge'', ''surveilrFunctionDoc'']"
  by code_simp

theorem housekeeping_envelope_witness:
  "carries_envelope device"
proof -
  have "device \<in> set schema" by (simp add: schema_def)
  moreover have "\<not> envelope_free device" by code_simp
  ultimately show ?thesis using housekeeping_envelope by blast
qed

section \<open>The tie-break between path match rules\<close>

lemma first_lowest_None: "first_lowest prio rs = None \<longleftrightarrow> rs = []"
  by (induction rs) (auto split: option.splits)

lemma first_lowest_Some:
  "first_lowest prio rs = Some r \<Longrightarrow>
   \<exists>i<length rs. rs ! i = r \<and>
     (\<forall>j<length rs. prio (cell r ''priority'') \<le> prio (cell (rs ! j) ''priority'')) \<and>
     (\<forall>j<i. prio (cell r ''priority'') < prio (cell (rs ! j) ''priority''))"
proof (induction rs arbitrary: r)
  case Nil
  then show ?case by simp
next
  case (Cons a rs)
  let ?p = "\<lambda>x. prio (cell x ''priority'')"
  show ?case
  proof (cases "first_lowest prio rs")
    case None
    then have "rs = []" by (simp add: first_lowest_None)
    moreover have "r = a" using Cons.prems None by simp
    ultimately show ?thesis by simp
  next
    case (Some b)
    from Cons.IH[OF Some] obtain i where i: "i < length rs" "rs ! i = b"
      and le: "\<forall>j<length rs. ?p b \<le> ?p (rs ! j)"
      and lt: "\<forall>j<i. ?p b < ?p (rs ! j)" by blast
    show ?thesis
    proof (cases "?p b < ?p a")
      case True
      then have r: "r = b" using Cons.prems Some by simp
      have "Suc i < length (a # rs)" using i by simp
      moreover have "(a # rs) ! Suc i = r" using i r by simp
      moreover have "\<forall>j<length (a # rs). ?p r \<le> ?p ((a # rs) ! j)"
        using le True r by (auto simp: nth_Cons split: nat.splits)
      moreover have "\<forall>j<Suc i. ?p r < ?p ((a # rs) ! j)"
        using lt True r by (auto simp: nth_Cons split: nat.splits)
      ultimately show ?thesis by blast
    next
      case False
      then have r: "r = a" using Cons.prems Some by simp
      have "\<forall>j<length (a # rs). ?p r \<le> ?p ((a # rs) ! j)"
      proof (intro allI impI)
        fix j assume j: "j < length (a # rs)"
        show "?p r \<le> ?p ((a # rs) ! j)"
        proof (cases j)
          case 0 then show ?thesis using r by simp
        next
          case (Suc k)
          then have "?p b \<le> ?p (rs ! k)" using le j by simp
          moreover have "?p a \<le> ?p b" using False by simp
          ultimately show ?thesis using r Suc by simp
        qed
      qed
      then show ?thesis using r by auto
    qed
  qed
qed

text \<open>
  C9.  The rule applied to a candidate path is, among the rules of the namespace that
  match it, taken in insertion order, one of lowest priority, and every matching rule
  declared before it has a strictly higher priority: the lowest priority wins, and among
  equal priorities the rule declared first.  A rule is chosen exactly when some rule of
  the namespace matches.
\<close>

theorem path_match_rule_tie_break:
  "(select_rule matches prio ns path rules = None
      \<longleftrightarrow> applicable matches ns path rules = []) \<and>
   (select_rule matches prio ns path rules = Some r \<longrightarrow>
      (\<exists>i<length (applicable matches ns path rules).
         applicable matches ns path rules ! i = r \<and>
         (\<forall>j<length (applicable matches ns path rules).
            prio (cell r ''priority'')
              \<le> prio (cell (applicable matches ns path rules ! j) ''priority'')) \<and>
         (\<forall>j<i. prio (cell r ''priority'')
              < prio (cell (applicable matches ns path rules ! j) ''priority''))))"
  unfolding select_rule_def using first_lowest_Some[of prio "applicable matches ns path rules" r]
  by (simp add: first_lowest_None)

theorem path_match_rule_tie_break_witness:
  "select_rule matches_all prio_text ''default'' ''/a/b.txt''
     [rule_row ''M2'' ''i'' ''2'', rule_row ''M1'' ''i'' ''1'', rule_row ''M3'' ''g'' ''1'']
     = Some (rule_row ''M1'' ''i'' ''1'') \<and>
   prio_text (cell (rule_row ''M1'' ''i'' ''1'') ''priority'')
     < prio_text (cell (rule_row ''M2'' ''i'' ''2'') ''priority'')"
proof -
  let ?rules = "[rule_row ''M2'' ''i'' ''2'', rule_row ''M1'' ''i'' ''1'', rule_row ''M3'' ''g'' ''1'']"
  have s: "select_rule matches_all prio_text ''default'' ''/a/b.txt'' ?rules
             = Some (rule_row ''M1'' ''i'' ''1'')"
    by code_simp
  have a: "applicable matches_all ''default'' ''/a/b.txt'' ?rules = ?rules"
    by code_simp
  from path_match_rule_tie_break[of matches_all prio_text "''default''" "''/a/b.txt''" ?rules
      "rule_row ''M1'' ''i'' ''1''"] s
  obtain i where i: "i < length ?rules" "?rules ! i = rule_row ''M1'' ''i'' ''1''"
    and lt: "\<forall>j<i. prio_text (cell (rule_row ''M1'' ''i'' ''1'') ''priority'')
                  < prio_text (cell (?rules ! j) ''priority'')"
    unfolding a by blast
  have "?rules ! 0 \<noteq> rule_row ''M1'' ''i'' ''1''" by (simp add: rule_row_def)
  then have "0 < i" using i(2) by (cases i) auto
  then have "prio_text (cell (rule_row ''M1'' ''i'' ''1'') ''priority'')
                  < prio_text (cell (?rules ! 0) ''priority'')" using lt by blast
  then show ?thesis using s by simp
qed

section \<open>Ingest sessions\<close>

lemma urIngestSession_facts:
  "urIngestSession \<in> set schema"
  "tsName urIngestSession = ''urIngestSession''"
  "unique_keys urIngestSession = [[''urIngestSessionId''], [''deviceId'', ''createdAt'']]"
  "''deviceId'' \<in> set (not_null_keys urIngestSession)"
  by (simp_all add: schema_def urIngestSession_def unique_keys_def not_null_keys_def housekeeping_def)

text \<open>
  C10.  \<open>urIngestSession\<close> declares \<open>unique().on(table.deviceId, table.createdAt)\<close>.
  In every store built by inserts, at most one ingest-session row carries a given device
  and a given creation timestamp; and when such a row is stored, an insert of another
  session row whose device and creation timestamp (given, or taken from the clock by
  the column default) are the same is rejected.
\<close>

theorem ingest_session_device_createdAt_unique:
  assumes "reachable jv s" and "c \<noteq> Null"
  shows "length (rows_with [''deviceId'', ''createdAt''] [d, c] (s ''urIngestSession'')) \<le> 1 \<and>
     (rows_with [''deviceId'', ''createdAt''] [d, c] (s ''urIngestSession'') \<noteq> [] \<longrightarrow>
      map (cell (complete ts urIngestSession r)) [''deviceId'', ''createdAt''] = [d, c] \<longrightarrow>
      (\<exists>e. insert_row jv ts urIngestSession r s = Inl e))"
proof -
  let ?u = "[''deviceId'', ''createdAt'']"
  let ?rs = "s ''urIngestSession''"
  have con: "consistent jv s" using assms(1) by (rule reachable_consistent)
  have uniq: "unique_on ?u ?rs"
    using con urIngestSession_facts unfolding consistent_def by (metis list.set_intros(1,2))
  have dnn: "d \<noteq> Null" if "rows_with ?u [d, c] ?rs \<noteq> []"
  proof -
    from that obtain r0 where r0: "r0 \<in> set ?rs" "cell r0 ''deviceId'' = d"
      by (auto simp: rows_with_def filter_empty_conv)
    then show ?thesis
      using not_null_cell[OF con urIngestSession_facts(1), of r0 "''deviceId''"] urIngestSession_facts
      by auto
  qed
  have A: "length (rows_with ?u [d, c] ?rs) \<le> 1"
  proof (cases "rows_with ?u [d, c] ?rs = []")
    case True then show ?thesis by simp
  next
    case False
    then show ?thesis using unique_on_count[OF uniq, of "[d, c]"] dnn assms(2) by auto
  qed
  have B: "\<exists>e. insert_row jv ts urIngestSession r s = Inl e"
    if ne: "rows_with ?u [d, c] ?rs \<noteq> []"
      and m: "map (cell (complete ts urIngestSession r)) ?u = [d, c]"
  proof (cases "insert_row jv ts urIngestSession r s")
    case (Inl e) then show ?thesis by blast
  next
    case (Inr s')
    from ne obtain r0 where r0: "r0 \<in> set (rows_with ?u [d, c] ?rs)" by (cases "rows_with ?u [d, c] ?rs") auto
    have "agree ?u r0 (complete ts urIngestSession r)"
      using rows_with_agree[OF r0 _ m] dnn[OF ne] assms(2) by auto
    moreover have "r0 \<in> set ?rs" using r0 by (simp add: rows_with_def)
    ultimately show ?thesis
      using insert_row_InrD(4)[OF Inr] urIngestSession_facts by (auto simp: list_ex_iff)
  qed
  show ?thesis using A B by blast
qed

lemma one_session_run:
  "\<exists>s. run json_valid_ex one_session empty_store = Inr s"
  by (rule run_okI, code_simp)+

theorem ingest_session_device_createdAt_unique_witness:
  "length (rows_with [''deviceId'', ''createdAt''] [Text ''D1'', Text ''t1'']
      (build json_valid_ex one_session ''urIngestSession'')) \<le> 1 \<and>
   (\<exists>e. insert_row json_valid_ex ''t1'' urIngestSession session_S2
      (build json_valid_ex one_session) = Inl e)"
proof -
  obtain s where s: "run json_valid_ex one_session empty_store = Inr s"
    using one_session_run by blast
  have r: "reachable json_valid_ex (build json_valid_ex one_session)"
    by (rule build_reachable[OF s]) (simp add: one_session_def schema_def)
  have ne: "rows_with [''deviceId'', ''createdAt''] [Text ''D1'', Text ''t1'']
      (build json_valid_ex one_session ''urIngestSession'') \<noteq> []"
    by code_simp
  have m: "map (cell (complete ''t1'' urIngestSession session_S2)) [''deviceId'', ''createdAt'']
      = [Text ''D1'', Text ''t1'']"
    by (simp add: session_S2_def complete_def cell_def urIngestSession_def housekeeping_def)
  show ?thesis
    using ingest_session_device_createdAt_unique[OF r, of "Text ''t1''" "Text ''D1''" "''t1''" session_S2]
      ne m by simp
qed


end
